theory Spec2Isabelle
  imports Main "HOL-Library.Code_Target_Nat"
begin

section \<open>Text\<close>

text \<open>
  A Python \<open>str\<close> is a sequence of Unicode code points; it is modelled as a list of
  natural numbers. \<open>S\<close> turns an ASCII literal of the source into such a list.
\<close>

type_synonym pystr = "nat list"

definition S :: "string \<Rightarrow> pystr" where
  "S s = map of_char s"

text \<open>
  \<open>str.isspace\<close>, which is also what \<open>str.split()\<close>, \<open>str.strip()\<close> and the
  regular expression class \<open>\s\<close> use on \<open>str\<close> patterns.
\<close>

definition isspace :: "nat \<Rightarrow> bool" where
  "isspace c \<longleftrightarrow>
     (9 \<le> c \<and> c \<le> 13) \<or> (28 \<le> c \<and> c \<le> 32) \<or> c = 133 \<or> c = 160 \<or> c = 5760 \<or>
     (8192 \<le> c \<and> c \<le> 8202) \<or> c = 8232 \<or> c = 8233 \<or> c = 8239 \<or> c = 8287 \<or>
     c = 12288"

text \<open>
  \<open>str.isdecimal\<close>, the class \<open>\d\<close> of a \<open>str\<close> pattern: the code points of general
  category Nd (Unicode 14). Every block holds ten digits, but the mathematical digits
  (fifty from U+1D7CE).
\<close>

definition decimal_blocks :: "nat list" where
  "decimal_blocks =
     [48, 1632, 1776, 1984, 2406, 2534, 2662, 2790, 2918, 3046, 3174, 3302, 3430, 3558,
      3664, 3792, 3872, 4160, 4240, 6112, 6160, 6470, 6608, 6784, 6800, 6992, 7088, 7232,
      7248, 42528, 43216, 43264, 43472, 43504, 43600, 44016, 65296, 66720, 68912, 69734,
      69872, 69942, 70096, 70384, 70736, 70864, 71248, 71360, 71472, 71904, 72016, 72784,
      73040, 73120, 92768, 92864, 93008, 123200, 123632, 125264, 130032]"

definition isdecimal :: "nat \<Rightarrow> bool" where
  "isdecimal c \<longleftrightarrow>
     list_ex (\<lambda>b. b \<le> c \<and> c < b + 10) decimal_blocks \<or> (120782 \<le> c \<and> c < 120832)"

definition lstrip :: "pystr \<Rightarrow> pystr" where
  "lstrip s = dropWhile isspace s"

definition rstrip :: "pystr \<Rightarrow> pystr" where
  "rstrip s = rev (dropWhile isspace (rev s))"

definition py_strip :: "pystr \<Rightarrow> pystr" where
  "py_strip s = rstrip (lstrip s)"

text \<open>
  \<open>str.split()\<close> with no argument: the maximal runs of non-space characters. The first
  argument is the run being read, reversed.
\<close>

fun split_runs :: "pystr \<Rightarrow> pystr \<Rightarrow> pystr list" where
  "split_runs cur [] = (if cur = [] then [] else [rev cur])"
| "split_runs cur (c # cs) =
     (if isspace c then (if cur = [] then split_runs [] cs else rev cur # split_runs [] cs)
      else split_runs (c # cur) cs)"

definition py_split :: "pystr \<Rightarrow> pystr list" where
  "py_split s = split_runs [] s"

fun py_join :: "pystr \<Rightarrow> pystr list \<Rightarrow> pystr" where
  "py_join sep [] = []"
| "py_join sep [x] = x"
| "py_join sep (x # y # ys) = x @ sep @ py_join sep (y # ys)"

text \<open>\<open>DictionaryScraper.clean_text\<close>: \<^verbatim>\<open>" ".join(text.strip().split())\<close>.\<close>

definition clean_text :: "pystr \<Rightarrow> pystr" where
  "clean_text t = py_join (S '' '') (py_split (py_strip t))"

definition startswith :: "pystr \<Rightarrow> pystr \<Rightarrow> bool" where
  "startswith s p \<longleftrightarrow> take (length p) s = p"

text \<open>
  \<open>s.replace(old, new)\<close> for a non-empty \<open>old\<close> (the source only replaces the literals
  \<open>verb\<close>, \<open>[\<close>, \<open>]\<close> and the arrow U+2192): the occurrences of \<open>old\<close> are replaced from
  the left, without overlap.
\<close>

function py_replace :: "pystr \<Rightarrow> pystr \<Rightarrow> pystr \<Rightarrow> pystr" where
  "py_replace old new s =
     (if s = [] then []
      else if old \<noteq> [] \<and> startswith s old then new @ py_replace old new (drop (length old) s)
      else hd s # py_replace old new (tl s))"
  by pat_completeness auto
termination
  by (relation "measure (\<lambda>(old, new, s). length s)") auto

declare py_replace.simps [simp del]

text \<open>\<^verbatim>\<open>href.split('/')[-1] if '/' in href else ""\<close>.\<close>

definition last_path_component :: "pystr \<Rightarrow> pystr" where
  "last_path_component href =
     (if of_char CHR ''/'' \<in> set href
      then rev (takeWhile (\<lambda>c. c \<noteq> of_char CHR ''/'') (rev href)) else [])"

text \<open>\<^verbatim>\<open>s.split(":", 1)[1]\<close>, used where \<^verbatim>\<open>":" in s\<close> holds.\<close>

definition after_first_colon :: "pystr \<Rightarrow> pystr" where
  "after_first_colon s = tl (dropWhile (\<lambda>c. c \<noteq> of_char CHR '':'') s)"

subsection \<open>The regular expressions of the source\<close>

text \<open>\<^verbatim>\<open>re.sub(r'^:\s*', '', s)\<close>.\<close>

definition sub_leading_colon :: "pystr \<Rightarrow> pystr" where
  "sub_leading_colon s =
     (case s of [] \<Rightarrow> [] | c # cs \<Rightarrow> if c = of_char CHR '':'' then dropWhile isspace cs else s)"

text \<open>
  \<^verbatim>\<open>re.sub(r'<[^>]*>', '', s)\<close>: every \<open><\<close> that is followed somewhere by a \<open>>\<close> is
  removed together with everything up to the first such \<open>>\<close>.
\<close>

function sub_tags :: "pystr \<Rightarrow> pystr" where
  "sub_tags s =
     (case s of [] \<Rightarrow> []
      | c # cs \<Rightarrow>
          if c = of_char CHR ''<'' then
            (if of_char CHR ''>'' \<in> set cs
             then sub_tags (tl (dropWhile (\<lambda>d. d \<noteq> of_char CHR ''>'') cs))
             else c # cs)
          else c # sub_tags cs)"
  by pat_completeness auto
termination
proof (relation "measure length")
  fix s :: pystr and c cs
  assume "s = c # cs"
  have "length (dropWhile (\<lambda>d. d \<noteq> of_char CHR ''>'') cs) \<le> length cs"
    by (rule length_dropWhile_le)
  then have "length (tl (dropWhile (\<lambda>d. d \<noteq> of_char CHR ''>'') cs)) \<le> length cs"
    by simp
  then show "(tl (dropWhile (\<lambda>d. d \<noteq> of_char CHR ''>'') cs), s) \<in> measure length"
    using \<open>s = c # cs\<close> by simp
qed auto

declare sub_tags.simps [simp del]

text \<open>
  \<^verbatim>\<open>re.sub(r'^\s*\d+\s*[:.)]?\s*', '', s)\<close>: a leading number with the punctuation and
  the spaces around it; without a digit after the leading spaces nothing matches.
\<close>

definition sub_numbering :: "pystr \<Rightarrow> pystr" where
  "sub_numbering s =
     (let a = dropWhile isspace s in
      if a \<noteq> [] \<and> isdecimal (hd a) then
        (let b = dropWhile isspace (dropWhile isdecimal a);
             c = (if b \<noteq> [] \<and> hd b \<in> {of_char CHR '':'', of_char CHR ''.'', of_char CHR '')''}
                  then tl b else b)
         in dropWhile isspace c)
      else s)"

text \<open>
  \<^verbatim>\<open>re.sub(r'^example\s*[:.]\s*', '', s, flags=re.IGNORECASE)\<close>. No code point other than
  the letter and its capital matches one of the letters of \<open>example\<close> when case is
  ignored.
\<close>

definition ascii_lower :: "nat \<Rightarrow> nat" where
  "ascii_lower c = (if 65 \<le> c \<and> c \<le> 90 then c + 32 else c)"

definition sub_example_prefix :: "pystr \<Rightarrow> pystr" where
  "sub_example_prefix s =
     (if map ascii_lower (take 7 s) = S ''example'' then
        (let b = dropWhile isspace (drop 7 s) in
         if b \<noteq> [] \<and> hd b \<in> {of_char CHR '':'', of_char CHR ''.''}
         then dropWhile isspace (tl b) else s)
      else s)"

text \<open>
  \<^verbatim>\<open>re.sub(r'^\s*\(\s*=\s*|\s*\)\s*$', '', s)\<close>: an opening \<open>(=\<close> at the start and a
  closing parenthesis at the end, each with the spaces around it.
\<close>

definition sub_gloss_open :: "pystr \<Rightarrow> pystr" where
  "sub_gloss_open s =
     (case dropWhile isspace s of
        [] \<Rightarrow> s
      | c # b \<Rightarrow>
          if c = of_char CHR ''('' then
            (case dropWhile isspace b of
               [] \<Rightarrow> s
             | d # e \<Rightarrow> if d = of_char CHR ''='' then dropWhile isspace e else s)
          else s)"

definition sub_gloss_close :: "pystr \<Rightarrow> pystr" where
  "sub_gloss_close s =
     (case dropWhile isspace (rev s) of
        [] \<Rightarrow> s
      | c # r \<Rightarrow> if c = of_char CHR '')'' then rev (dropWhile isspace r) else s)"

definition sub_gloss :: "pystr \<Rightarrow> pystr" where
  "sub_gloss s = sub_gloss_close (sub_gloss_open s)"

section \<open>The parsed document\<close>

text \<open>
  \<open>fetch_page\<close> hands the extractors a parsed tree. A node is a string or a tag with its
  name, the tokens of its \<open>class\<close> attribute, its other attributes and its children.
  Comments and other leaves that carry no text are not part of the model.
\<close>

datatype node =
  NavigableString pystr
| Tag pystr "pystr list" "(pystr \<times> pystr) list" "node list"

fun tag_name :: "node \<Rightarrow> pystr option" where
  "tag_name (NavigableString s) = None"
| "tag_name (Tag n cl at ch) = Some n"

fun classes :: "node \<Rightarrow> pystr list" where
  "classes (NavigableString s) = []"
| "classes (Tag n cl at ch) = cl"

fun attrs :: "node \<Rightarrow> (pystr \<times> pystr) list" where
  "attrs (NavigableString s) = []"
| "attrs (Tag n cl at ch) = at"

fun children :: "node \<Rightarrow> node list" where
  "children (NavigableString s) = []"
| "children (Tag n cl at ch) = ch"

text \<open>The nodes below a node, in document order.\<close>

fun descendants :: "node \<Rightarrow> node list" where
  "descendants (NavigableString s) = []"
| "descendants (Tag n cl at ch) = concat (map (\<lambda>c. c # descendants c) ch)"

text \<open>\<open>Tag.text\<close>: the strings below the node, concatenated.\<close>

fun get_text :: "node \<Rightarrow> pystr" where
  "get_text (NavigableString s) = s"
| "get_text (Tag n cl at ch) = concat (map get_text ch)"

text \<open>
  \<open>Tag.string\<close>: the string of a node whose only child is a string, or a tag that has
  such a string itself.
\<close>

fun tag_string :: "node \<Rightarrow> pystr option" where
  "tag_string (NavigableString s) = Some s"
| "tag_string (Tag n cl at [c]) = tag_string c"
| "tag_string (Tag n cl at ch) = None"

subsection \<open>Selectors\<close>

text \<open>
  Every selector of the source is a comma-separated list of compound selectors: an
  optional tag name and class names, with no combinator. \<open>css\<close> reads the selector
  strings of the source.
\<close>

datatype compound = Compound "pystr option" "pystr list"

type_synonym selector = "compound list"

fun split_char :: "'a \<Rightarrow> 'a list \<Rightarrow> 'a list list" where
  "split_char c [] = [[]]"
| "split_char c (x # xs) =
     (if x = c then [] # split_char c xs
      else (case split_char c xs of [] \<Rightarrow> [[x]] | y # ys \<Rightarrow> (x # y) # ys))"

definition compound_of :: "string \<Rightarrow> compound" where
  "compound_of p =
     (case split_char CHR ''.'' (filter (\<lambda>c. c \<noteq> CHR '' '') p) of
        [] \<Rightarrow> Compound None []
      | t # cs \<Rightarrow> Compound (if t = [] then None else Some (S t)) (map S cs))"

definition css :: "string \<Rightarrow> selector" where
  "css s = map compound_of (split_char CHR '','' s)"

fun matches_compound :: "compound \<Rightarrow> node \<Rightarrow> bool" where
  "matches_compound (Compound t cs) (NavigableString s) = False"
| "matches_compound (Compound t cs) (Tag n cl at ch) =
     ((case t of None \<Rightarrow> True | Some t' \<Rightarrow> n = t') \<and> list_all (\<lambda>c. c \<in> set cl) cs)"

definition matches :: "selector \<Rightarrow> node \<Rightarrow> bool" where
  "matches sel x = list_ex (\<lambda>c. matches_compound c x) sel"

text \<open>\<open>Tag.select\<close> and \<open>Tag.select_one\<close>: the matching descendants, in document order.\<close>

definition select :: "selector \<Rightarrow> node \<Rightarrow> node list" where
  "select sel x = filter (matches sel) (descendants x)"

definition select_one :: "selector \<Rightarrow> node \<Rightarrow> node option" where
  "select_one sel x = (case select sel x of [] \<Rightarrow> None | y # ys \<Rightarrow> Some y)"

section \<open>Entries\<close>

text \<open>
  The dictionaries that the extractors return. A key that a dictionary may lack is an
  optional field. \<open>sense_number\<close> is a label read from the page (Merriam-Webster) or the
  position of the sense in its entry (Longman).
\<close>

datatype sense_label = SenseStr pystr | SenseInt nat

record grammatical_pattern =
  pattern :: pystr
  pattern_examples :: "pystr list option"

record collocation =
  phrase :: pystr
  meaning :: "pystr option"
  collocation_examples :: "pystr list option"

record definition_unit =
  definition_str :: "pystr option"
  examples :: "pystr list option"
  pos :: pystr
  sense_number :: "sense_label option"
  sense_letter :: "pystr option"
  grammar :: "pystr option"
  translation :: "pystr option"
  grammatical_patterns :: "grammatical_pattern list option"
  collocations :: "collocation list option"
  related_word :: "pystr option"
  thesaurus_ref :: "pystr option"

record corpus_group =
  title :: pystr
  group_examples :: "pystr list"

record normalized_entry =
  source :: pystr
  word :: pystr
  url :: pystr
  definitions :: "definition_unit list"
  word_family :: "(pystr \<times> pystr list) list option"
  pronunciation :: "pystr option"
  frequency :: "pystr list option"
  headword_pos :: "pystr option"
  corpus_examples :: "corpus_group list option"
  verb_forms :: "(pystr \<times> pystr) list option"

record error_entry =
  error_source :: pystr
  error :: pystr
  trace :: "pystr option"

datatype entry = NormalizedEntry normalized_entry | ErrorEntry error_entry

text \<open>The dictionary \<^verbatim>\<open>{"definition": d, "examples": ex, "pos": p}\<close>.\<close>

definition definition_obj :: "pystr \<Rightarrow> pystr list \<Rightarrow> pystr \<Rightarrow> definition_unit" where
  "definition_obj d ex p =
     \<lparr>definition_str = Some d, examples = Some ex, pos = p, sense_number = None,
      sense_letter = None, grammar = None, translation = None, grammatical_patterns = None,
      collocations = None, related_word = None, thesaurus_ref = None\<rparr>"

text \<open>The dictionary \<^verbatim>\<open>{"source": n, "word": w, "url": u, "definitions": ds}\<close>.\<close>

definition result_obj :: "pystr \<Rightarrow> pystr \<Rightarrow> pystr \<Rightarrow> definition_unit list \<Rightarrow> normalized_entry" where
  "result_obj n w u ds =
     \<lparr>source = n, word = w, url = u, definitions = ds, word_family = None,
      pronunciation = None, frequency = None, headword_pos = None, corpus_examples = None,
      verb_forms = None\<rparr>"

text \<open>The dictionary \<^verbatim>\<open>{"source": self.name, "error": "Failed to fetch page"}\<close>.\<close>

definition fetch_failure :: "pystr \<Rightarrow> entry" where
  "fetch_failure n =
     ErrorEntry \<lparr>error_source = n, error = S ''Failed to fetch page'', trace = None\<rparr>"

section \<open>The extractors\<close>

datatype scraper =
  MerriamWebsterScraper
| CambridgeDictionaryScraper pystr
| LongmanDictionaryScraper

text \<open>\<open>CambridgeDictionaryScraper.__init__\<close>: name, base URL and bilingual flag by language.\<close>

definition cambridge_name :: "pystr \<Rightarrow> pystr" where
  "cambridge_name language =
     (if language = S ''chinese'' then S ''Cambridge Dictionary (English-Chinese)''
      else if language = S ''japanese'' then S ''Cambridge Dictionary (English-Japanese)''
      else if language = S ''korean'' then S ''Cambridge Dictionary (English-Korean)''
      else if language = S ''italian'' then S ''Cambridge Dictionary (English-Italian)''
      else S ''Cambridge Dictionary'')"

definition cambridge_base_url :: "pystr \<Rightarrow> pystr" where
  "cambridge_base_url language =
     (if language = S ''chinese''
      then S ''https://dictionary.cambridge.org/dictionary/english-chinese-simplified/''
      else if language = S ''japanese''
      then S ''https://dictionary.cambridge.org/dictionary/english-japanese/''
      else if language = S ''korean''
      then S ''https://dictionary.cambridge.org/dictionary/english-korean/''
      else if language = S ''italian''
      then S ''https://dictionary.cambridge.org/dictionary/english-italian/''
      else S ''https://dictionary.cambridge.org/dictionary/english/'')"

definition has_translation :: "pystr \<Rightarrow> bool" where
  "has_translation language \<longleftrightarrow>
     (if language = S ''chinese'' then True
      else if language = S ''japanese'' then True
      else if language = S ''korean'' then True
      else if language = S ''italian'' then True
      else False)"

fun name :: "scraper \<Rightarrow> pystr" where
  "name MerriamWebsterScraper = S ''Merriam-Webster''"
| "name (CambridgeDictionaryScraper language) = cambridge_name language"
| "name LongmanDictionaryScraper = S ''Longman Dictionary''"

fun base_url :: "scraper \<Rightarrow> pystr" where
  "base_url MerriamWebsterScraper = S ''https://www.merriam-webster.com/dictionary/''"
| "base_url (CambridgeDictionaryScraper language) = cambridge_base_url language"
| "base_url LongmanDictionaryScraper = S ''https://www.ldoceonline.com/dictionary/''"

text \<open>\<^verbatim>\<open>url = f"{self.base_url}{word}"\<close>.\<close>

definition page_url :: "scraper \<Rightarrow> pystr \<Rightarrow> pystr" where
  "page_url s w = base_url s @ w"

text \<open>
  \<open>fetch_page\<close> returns the parsed page, or \<open>None\<close> on a status other than 200 and on
  any exception. The extractors take it as a function of the URL.
\<close>

type_synonym transport = "pystr \<Rightarrow> node option"

subsection \<open>Merriam-Webster\<close>

text \<open>\<open>_legacy_get_definition\<close>, the body of its loop over the sections first.\<close>

definition legacy_section :: "pystr \<Rightarrow> node \<Rightarrow> definition_unit list" where
  "legacy_section word_type section =
     (let definition_elem =
            (case select_one (css ''.dtText'') section of
               Some e \<Rightarrow> Some e
             | None \<Rightarrow> select_one (css ''.dt'') section);
          definition0 =
            (if definition_elem = None \<and> of_char CHR '':'' \<in> set (get_text section)
             then clean_text (after_first_colon (get_text section))
             else (case definition_elem of
                     Some e \<Rightarrow> clean_text (get_text e)
                   | None \<Rightarrow> clean_text (get_text section)));
          definition1 = sub_numbering definition0;
          example_elems = select (css ''.ex-sent, .t, .vis-example'') section;
          exs = map (\<lambda>example. sub_example_prefix (clean_text (get_text example)))
                  (take 3 example_elems)
      in if definition1 \<noteq> [] \<and> \<not> startswith definition1 [8212]
         then [definition_obj definition1 exs word_type] else [])"

definition legacy_sections :: "node \<Rightarrow> node list" where
  "legacy_sections soup =
     (let def_sections = select (css ''div.sense'') soup
      in if def_sections = [] then select (css ''span.dt'') soup else def_sections)"

definition legacy_get_definition :: "node \<Rightarrow> pystr \<Rightarrow> pystr \<Rightarrow> normalized_entry" where
  "legacy_get_definition soup w u =
     (let word_type =
            (case select_one (css ''span.fl'') soup of
               Some part_of_speech \<Rightarrow> clean_text (get_text part_of_speech)
             | None \<Rightarrow> [])
      in result_obj (name MerriamWebsterScraper) w u
           (concat (map (legacy_section word_type) (take 7 (legacy_sections soup)))))"

text \<open>The primary strategy of \<open>MerriamWebsterScraper.get_definition\<close>, innermost loop first.\<close>

definition mw_subsense :: "pystr \<Rightarrow> pystr \<Rightarrow> node \<Rightarrow> definition_unit list" where
  "mw_subsense word_type sense_num subsense =
     (let letter_label =
            (case select_one (css ''.letter'') subsense of
               Some letter_elem \<Rightarrow> clean_text (get_text letter_elem)
             | None \<Rightarrow> []);
          definition_text =
            (case select_one (css ''.dtText'') subsense of
               Some def_elem \<Rightarrow> sub_leading_colon (clean_text (get_text def_elem))
             | None \<Rightarrow> []);
          exs = map (\<lambda>example. sub_tags (clean_text (get_text example)))
                  (select (css ''.ex-sent'') subsense)
      in if definition_text \<noteq> []
         then [(definition_obj definition_text exs word_type)
                 \<lparr>sense_number := (if sense_num \<noteq> [] then Some (SenseStr sense_num) else None),
                  sense_letter := (if letter_label \<noteq> [] then Some letter_label else None)\<rparr>]
         else [])"

definition mw_sense_item :: "pystr \<Rightarrow> node \<Rightarrow> definition_unit list" where
  "mw_sense_item word_type sense_item =
     (let sense_num =
            (case select_one (css ''.vg-sseq-entry-item-label'') sense_item of
               Some sense_label \<Rightarrow> clean_text (get_text sense_label)
             | None \<Rightarrow> []);
          subsenses0 = select (css ''.sense.has-sn'') sense_item;
          subsenses =
            (if subsenses0 = [] then [select_one (css ''.sense-content'') sense_item]
             else map Some subsenses0)
      in concat (map (\<lambda>subsense. case subsense of
                                     None \<Rightarrow> []
                                   | Some x \<Rightarrow> mw_subsense word_type sense_num x) subsenses))"

definition mw_word_type :: "node \<Rightarrow> pystr" where
  "mw_word_type pos_block =
     (case select_one (css ''.vd, .important-blue-link'') pos_block of
        None \<Rightarrow> []
      | Some pos_elem \<Rightarrow>
          (let word_type = py_strip (py_replace (S ''verb'') [] (clean_text (get_text pos_elem)))
           in if word_type = [] then
                (case map_of (attrs pos_elem) (S ''href'') of
                   Some href \<Rightarrow>
                     if tag_name pos_elem = Some (S ''a'') then last_path_component href else []
                 | None \<Rightarrow> [])
              else word_type))"

definition mw_pos_block :: "node \<Rightarrow> definition_unit list" where
  "mw_pos_block pos_block =
     concat (map (mw_sense_item (mw_word_type pos_block))
               (select (css ''.vg-sseq-entry-item'') pos_block))"

definition mw_primary :: "node \<Rightarrow> definition_unit list" where
  "mw_primary soup = concat (map mw_pos_block (select (css ''.vg'') soup))"

text \<open>
  \<open>MerriamWebsterScraper.get_definition\<close>. No operation of its body raises on a parsed
  tree, so its exception handler is not reached.
\<close>

definition mw_extract :: "node \<Rightarrow> pystr \<Rightarrow> pystr \<Rightarrow> normalized_entry" where
  "mw_extract soup w u =
     (if select (css ''.vg'') soup = [] then legacy_get_definition soup w u
      else if mw_primary soup = [] then legacy_get_definition soup w u
      else result_obj (name MerriamWebsterScraper) w u (mw_primary soup))"

definition mw_get_definition :: "transport \<Rightarrow> pystr \<Rightarrow> entry" where
  "mw_get_definition fetch_page w =
     (let u = page_url MerriamWebsterScraper w
      in case fetch_page u of
           None \<Rightarrow> fetch_failure (name MerriamWebsterScraper)
         | Some soup \<Rightarrow> NormalizedEntry (mw_extract soup w u))"

subsection \<open>Cambridge\<close>

definition cambridge_example :: "node \<Rightarrow> pystr" where
  "cambridge_example example =
     (case select_one (css ''.eg.deg'') example of
        Some eng_example \<Rightarrow> clean_text (get_text eng_example)
      | None \<Rightarrow> clean_text (get_text example))"

definition cambridge_block :: "pystr \<Rightarrow> pystr \<Rightarrow> node \<Rightarrow> definition_unit list" where
  "cambridge_block language word_type block =
     (case select_one (css ''.def, .ddef_d'') block of
        None \<Rightarrow> []
      | Some definition_elem \<Rightarrow>
          (let definition0 = clean_text (get_text definition_elem);
               translation0 =
                 (if has_translation language then
                    (case select_one (css ''.trans.dtrans'') block of
                       Some trans_elem \<Rightarrow> clean_text (get_text trans_elem)
                     | None \<Rightarrow> [])
                  else []);
               exs = map cambridge_example (take 3 (select (css ''.examp, .dexamp'') block));
               def_obj = definition_obj definition0 exs word_type
           in [if has_translation language \<and> translation0 \<noteq> []
               then def_obj\<lparr>translation := Some translation0\<rparr> else def_obj]))"

definition cambridge_entry :: "pystr \<Rightarrow> node \<Rightarrow> definition_unit list" where
  "cambridge_entry language entry =
     (let word_type =
            (case select_one (css ''.pos.dpos'') entry of
               Some pos_elem \<Rightarrow> clean_text (get_text pos_elem)
             | None \<Rightarrow> [])
      in concat (map (cambridge_block language word_type)
                   (take 5 (select (css ''.def-block, .ddef_block'') entry))))"

definition cambridge_definitions :: "pystr \<Rightarrow> node \<Rightarrow> definition_unit list" where
  "cambridge_definitions language soup =
     concat (map (cambridge_entry language) (take 2 (select (css ''.entry-body__el'') soup)))"

text \<open>
  \<open>CambridgeDictionaryScraper.get_definition\<close>. As for Merriam-Webster, nothing in its
  body raises on a parsed tree.
\<close>

definition cambridge_get_definition :: "transport \<Rightarrow> pystr \<Rightarrow> pystr \<Rightarrow> entry" where
  "cambridge_get_definition fetch_page language w =
     (let u = page_url (CambridgeDictionaryScraper language) w
      in case fetch_page u of
           None \<Rightarrow> fetch_failure (name (CambridgeDictionaryScraper language))
         | Some soup \<Rightarrow>
             NormalizedEntry
               (result_obj (name (CambridgeDictionaryScraper language)) w u
                  (cambridge_definitions language soup)))"

subsection \<open>Longman\<close>

text \<open>
  The Longman extractor edits the tree in place while it holds references to nodes that
  it selected before: \<open>decompose\<close> destroys a node with everything below it, and
  \<open>replace_with\<close> puts a string in the place of a node, which stays whole outside the
  tree. So the page is a state. Every tag bears a reference, its path in the page as
  parsed; the state is the tree of the page and the nodes that were replaced, and a
  reference is looked up in both. A reference to a destroyed node finds a tag with no
  name, no class and no content, which is what the library leaves of it.
\<close>

type_synonym ref = "nat list"

datatype lnode =
  LString pystr
| LTag ref pystr "pystr list" "(pystr \<times> pystr) list" "lnode list"

fun label :: "ref \<Rightarrow> node \<Rightarrow> lnode"
  and label_list :: "ref \<Rightarrow> nat \<Rightarrow> node list \<Rightarrow> lnode list" where
  "label p (NavigableString s) = LString s"
| "label p (Tag n cl at ch) = LTag p n cl at (label_list p 0 ch)"
| "label_list p k [] = []"
| "label_list p k (c # cs) = label (p @ [k]) c # label_list p (Suc k) cs"

fun erase :: "lnode \<Rightarrow> node" where
  "erase (LString s) = NavigableString s"
| "erase (LTag r n cl at ch) = Tag n cl at (map erase ch)"

fun ref_of :: "lnode \<Rightarrow> ref" where
  "ref_of (LString s) = []"
| "ref_of (LTag r n cl at ch) = r"

fun is_ref :: "ref \<Rightarrow> lnode \<Rightarrow> bool" where
  "is_ref r (LString s) = False"
| "is_ref r (LTag r' n cl at ch) = (r' = r)"

fun lchildren :: "lnode \<Rightarrow> lnode list" where
  "lchildren (LString s) = []"
| "lchildren (LTag r n cl at ch) = ch"

fun ldescendants :: "lnode \<Rightarrow> lnode list" where
  "ldescendants (LString s) = []"
| "ldescendants (LTag r n cl at ch) = concat (map (\<lambda>c. c # ldescendants c) ch)"

record page_state =
  soup_tree :: lnode
  detached :: "lnode list"

definition all_nodes :: "page_state \<Rightarrow> lnode list" where
  "all_nodes st = concat (map (\<lambda>t. t # ldescendants t) (soup_tree st # detached st))"

definition lookup :: "page_state \<Rightarrow> ref \<Rightarrow> lnode" where
  "lookup st r = (case find (is_ref r) (all_nodes st) of Some t \<Rightarrow> t | None \<Rightarrow> LTag r [] [] [] [])"

text \<open>The node that a reference stands for now, for the queries that only read.\<close>

definition node_at :: "page_state \<Rightarrow> ref \<Rightarrow> node" where
  "node_at st r = erase (lookup st r)"

text \<open>\<open>select\<close> and \<open>select_one\<close> where the code keeps the nodes found: their references.\<close>

definition refs_in :: "selector \<Rightarrow> lnode \<Rightarrow> ref list" where
  "refs_in sel x = map ref_of (filter (\<lambda>d. matches sel (erase d)) (ldescendants x))"

definition select_refs :: "page_state \<Rightarrow> selector \<Rightarrow> ref \<Rightarrow> ref list" where
  "select_refs st sel r = refs_in sel (lookup st r)"

definition select_one_ref :: "page_state \<Rightarrow> selector \<Rightarrow> ref \<Rightarrow> ref option" where
  "select_one_ref st sel r = (case select_refs st sel r of [] \<Rightarrow> None | x # xs \<Rightarrow> Some x)"

text \<open>\<open>x.decompose()\<close>: the node leaves its parent and is destroyed with all below it.\<close>

fun remove_ref :: "ref \<Rightarrow> lnode \<Rightarrow> lnode" where
  "remove_ref r (LString s) = LString s"
| "remove_ref r (LTag r' n cl at ch) =
     LTag r' n cl at (map (remove_ref r) (filter (\<lambda>c. \<not> is_ref r c) ch))"

definition decompose :: "page_state \<Rightarrow> ref \<Rightarrow> page_state" where
  "decompose st r =
     \<lparr>soup_tree = remove_ref r (soup_tree st),
      detached = map (remove_ref r) (filter (\<lambda>t. \<not> is_ref r t) (detached st))\<rparr>"

text \<open>
  \<open>x.replace_with(new)\<close>: \<open>new\<close> takes the place of the node among the children of its
  parent; the node itself stays, outside the tree, as \<open>rest\<close>. Every node that \<open>select\<close>
  returned has a parent, also after other nodes of the same result were replaced or
  destroyed, so the \<open>ValueError\<close> of a node without a parent does not arise.
\<close>

fun replace_ref :: "ref \<Rightarrow> lnode \<Rightarrow> lnode \<Rightarrow> lnode" where
  "replace_ref r new (LString s) = LString s"
| "replace_ref r new (LTag r' n cl at ch) =
     LTag r' n cl at (map (\<lambda>c. if is_ref r c then new else replace_ref r new c) ch)"

definition is_child :: "page_state \<Rightarrow> ref \<Rightarrow> bool" where
  "is_child st r = list_ex (\<lambda>t. list_ex (is_ref r) (lchildren t)) (all_nodes st)"

definition replace_with :: "page_state \<Rightarrow> ref \<Rightarrow> lnode \<Rightarrow> lnode \<Rightarrow> page_state" where
  "replace_with st r new rest =
     (if is_child st r
      then \<lparr>soup_tree = replace_ref r new (soup_tree st),
            detached = map (replace_ref r new) (detached st) @ [rest]\<rparr>
      else st)"

text \<open>
  A node whose \<open>string\<close> was moved out of it: the string was the only one below it, at
  the end of a chain of only children.
\<close>

fun without_string :: "lnode \<Rightarrow> lnode" where
  "without_string (LTag r n cl at [LString s]) = LTag r n cl at []"
| "without_string (LTag r n cl at [c]) = LTag r n cl at [without_string c]"
| "without_string x = x"

text \<open>\<^verbatim>\<open>for x in node.select(sel): x.decompose()\<close>.\<close>

definition decompose_all :: "page_state \<Rightarrow> selector \<Rightarrow> ref \<Rightarrow> page_state" where
  "decompose_all st sel r = foldl decompose st (select_refs st sel r)"

text \<open>
  \<^verbatim>\<open>for x in node.select(sel): if x.string: x.replace_with(x.string)\<close>: the string
  itself is moved to the place of the node.
\<close>

definition replace_with_string :: "page_state \<Rightarrow> selector \<Rightarrow> ref \<Rightarrow> page_state" where
  "replace_with_string st sel r =
     foldl (\<lambda>st x. case tag_string (node_at st x) of
                      None \<Rightarrow> st
                    | Some s \<Rightarrow>
                        if s \<noteq> [] then replace_with st x (LString s) (without_string (lookup st x))
                        else st)
       st (select_refs st sel r)"

text \<open>
  \<^verbatim>\<open>for x in node.select(sel): if x.string: x.replace_with(f"[{x.string}]")\<close>: a new
  string takes the place of the node, which keeps its own.
\<close>

definition replace_with_bracketed :: "page_state \<Rightarrow> selector \<Rightarrow> ref \<Rightarrow> page_state" where
  "replace_with_bracketed st sel r =
     foldl (\<lambda>st x. case tag_string (node_at st x) of
                      None \<Rightarrow> st
                    | Some s \<Rightarrow>
                        if s \<noteq> [] then replace_with st x (LString (S ''['' @ s @ S '']'')) (lookup st x)
                        else st)
       st (select_refs st sel r)"

text \<open>A loop that appends one value for each element, with the state passed on.\<close>

fun for_each :: "('s \<Rightarrow> 'a \<Rightarrow> 's \<times> 'b) \<Rightarrow> 's \<Rightarrow> 'a list \<Rightarrow> 's \<times> 'b list" where
  "for_each f st [] = (st, [])"
| "for_each f st (x # xs) =
     (let (st1, y) = f st x; (st2, ys) = for_each f st1 xs in (st2, y # ys))"

text \<open>Dictionaries with string keys, in insertion order.\<close>

definition dict_set :: "pystr \<Rightarrow> 'v \<Rightarrow> (pystr \<times> 'v) list \<Rightarrow> (pystr \<times> 'v) list" where
  "dict_set k v d =
     (if map_of d k = None then d @ [(k, v)]
      else map (\<lambda>(k', v'). if k' = k then (k', v) else (k', v')) d)"

definition dict_append :: "pystr \<Rightarrow> 'v \<Rightarrow> (pystr \<times> 'v list) list \<Rightarrow> (pystr \<times> 'v list) list" where
  "dict_append k v d = map (\<lambda>(k', vs). if k' = k then (k', vs @ [v]) else (k', vs)) d"

text \<open>
  The word family: the scan over the children of one \<open>.wordfams\<close> node, with the current
  part of speech and the dictionary built so far.
\<close>

fun fam_scan ::
  "node list \<Rightarrow> pystr option \<Rightarrow> (pystr \<times> pystr list) list \<Rightarrow> (pystr \<times> pystr list) list"
where
  "fam_scan [] current_pos fam_items = fam_items"
| "fam_scan (NavigableString s # elems) current_pos fam_items =
     fam_scan elems current_pos fam_items"
| "fam_scan (Tag n cl at ch # elems) current_pos fam_items =
     (if n = S ''span'' \<and> S ''pos'' \<in> set cl then
        (let p = clean_text (get_text (Tag n cl at ch))
         in fam_scan elems (Some p)
              (if map_of fam_items p = None then fam_items @ [(p, [])] else fam_items))
      else if (n = S ''span'' \<and> S ''w'' \<in> set cl) \<or> (n = S ''a'' \<and> S ''crossRef'' \<in> set cl) then
        (case current_pos of
           None \<Rightarrow> fam_scan elems current_pos fam_items
         | Some p \<Rightarrow>
             if p \<noteq> [] \<and> py_strip (get_text (Tag n cl at ch)) \<noteq> []
             then fam_scan elems current_pos
                    (dict_append p (clean_text (get_text (Tag n cl at ch))) fam_items)
             else fam_scan elems current_pos fam_items)
      else fam_scan elems current_pos fam_items)"

definition longman_word_family :: "node \<Rightarrow> (pystr \<times> pystr list) list" where
  "longman_word_family soup =
     foldl (\<lambda>fam_items fam. fam_scan (children fam) None fam_items) []
       (select (css ''.wordfams'') soup)"

text \<open>The elements of such a loop, each with the state in which the loop reaches it.\<close>

fun states_of :: "('s \<Rightarrow> 'a \<Rightarrow> 's \<times> 'b) \<Rightarrow> 's \<Rightarrow> 'a list \<Rightarrow> ('s \<times> 'a) list" where
  "states_of f st [] = []"
| "states_of f st (x # xs) = (st, x) # states_of f (fst (f st x)) xs"

text \<open>The page as parsed.\<close>

definition initial_state :: "node \<Rightarrow> page_state" where
  "initial_state soup = \<lparr>soup_tree = label [] soup, detached = []\<rparr>"

text \<open>The text of an example, without its speaker icons.\<close>

definition example_without_speaker :: "page_state \<Rightarrow> ref \<Rightarrow> page_state \<times> pystr" where
  "example_without_speaker st ex =
     (let st1 = decompose_all st (css ''.speaker'') ex
      in (st1, clean_text (get_text (node_at st1 ex))))"

definition longman_example :: "page_state \<Rightarrow> ref \<Rightarrow> page_state \<times> pystr" where
  "longman_example st example =
     (let st1 = decompose_all st (css ''.speaker'') example;
          st2 = replace_with_string st1 (css ''.COLLOINEXA'') example
      in (st2, clean_text (get_text (node_at st2 example))))"

definition longman_pattern :: "page_state \<Rightarrow> ref \<Rightarrow> page_state \<times> grammatical_pattern list" where
  "longman_pattern st pattern_section =
     (case select_one (css ''.PROPFORM'') (node_at st pattern_section) of
        None \<Rightarrow> (st, [])
      | Some pattern_form \<Rightarrow>
          (let (st1, pexs) = for_each example_without_speaker st
                               (select_refs st (css ''.EXAMPLE'') pattern_section)
           in (st1, [\<lparr>pattern = clean_text (get_text pattern_form),
                       pattern_examples = (if pexs \<noteq> [] then Some pexs else None)\<rparr>])))"

definition longman_patterns :: "page_state \<Rightarrow> ref \<Rightarrow> page_state \<times> grammatical_pattern list" where
  "longman_patterns st sense =
     (let (st1, ps) = for_each longman_pattern st (select_refs st (css ''.GramExa'') sense)
      in (st1, concat ps))"

definition longman_collocation :: "page_state \<Rightarrow> ref \<Rightarrow> page_state \<times> collocation list" where
  "longman_collocation st coll_section =
     (case select_one (css ''.COLLO'') (node_at st coll_section) of
        None \<Rightarrow> (st, [])
      | Some coll_phrase \<Rightarrow>
          (let gloss =
                 (case select_one (css ''.GLOSS'') (node_at st coll_section) of
                    None \<Rightarrow> None
                  | Some gloss_elem \<Rightarrow>
                      (let gloss_text = sub_gloss (clean_text (get_text gloss_elem))
                       in if gloss_text \<noteq> [] then Some gloss_text else None));
               (st1, cexs) = for_each example_without_speaker st
                               (select_refs st (css ''.EXAMPLE'') coll_section)
           in (st1, [\<lparr>phrase = clean_text (get_text coll_phrase), meaning = gloss,
                       collocation_examples = (if cexs \<noteq> [] then Some cexs else None)\<rparr>])))"

definition longman_collocations :: "page_state \<Rightarrow> ref \<Rightarrow> page_state \<times> collocation list" where
  "longman_collocations st sense =
     (let (st1, cs) = for_each longman_collocation st (select_refs st (css ''.ColloExa'') sense)
      in (st1, concat cs))"

text \<open>
  One sense block: \<open>sense_def\<close> is built key by key and appended only if it has the key
  \<open>definition\<close>. The state is the page as the senses before this one left it.
\<close>

definition longman_sense ::
  "page_state \<Rightarrow> nat \<Rightarrow> pystr \<Rightarrow> ref \<Rightarrow> page_state \<times> definition_unit list" where
  "longman_sense st sense_idx entry_pos sense =
     (let sense_def0 =
            \<lparr>definition_str = None, examples = None, pos = entry_pos,
             sense_number = Some (SenseInt sense_idx), sense_letter = None, grammar = None,
             translation = None, grammatical_patterns = None, collocations = None,
             related_word = None, thesaurus_ref = None\<rparr>;
          sense_def1 =
            (case select_one (css ''.GRAM'') (node_at st sense) of
               None \<Rightarrow> sense_def0
             | Some gram_elem \<Rightarrow>
                 sense_def0\<lparr>grammar :=
                   Some (clean_text (py_replace (S '']'') []
                                       (py_replace (S ''['') [] (get_text gram_elem))))\<rparr>);
          (st4, sense_def2) =
            (case select_one_ref st (css ''.DEF'') sense of
               None \<Rightarrow> (st, sense_def1)
             | Some definition_elem \<Rightarrow>
                 (let st1 = replace_with_string st (css ''.defRef'') definition_elem;
                      definition0 = clean_text (get_text (node_at st1 definition_elem));
                      (st2, exs) = for_each longman_example st1
                                     (select_refs st1 (css ''.EXAMPLE'') sense);
                      (st3, patterns) = longman_patterns st2 sense;
                      (st4, colls) = longman_collocations st3 sense
                  in (st4,
                      sense_def1
                        \<lparr>definition_str := Some definition0,
                         examples := Some exs,
                         grammatical_patterns := (if patterns \<noteq> [] then Some patterns else None),
                         collocations := (if colls \<noteq> [] then Some colls else None)\<rparr>)));
          sense_def3 =
            (case select_one (css ''.RELATEDWD'') (node_at st4 sense) of
               None \<Rightarrow> sense_def2
             | Some related_elem \<Rightarrow>
                 (let rw = clean_text (py_strip (py_replace [8594] [] (get_text related_elem)))
                  in if rw \<noteq> [] then sense_def2\<lparr>related_word := Some rw\<rparr> else sense_def2));
          sense_def4 =
            (case select_one (css ''.Thesref'') (node_at st4 sense) of
               None \<Rightarrow> sense_def3
             | Some thes_elem \<Rightarrow>
                 (case select_one (css ''.REFHWD'') thes_elem of
                    None \<Rightarrow> sense_def3
                  | Some ref_elem \<Rightarrow>
                      (let thes_ref = clean_text (get_text ref_elem)
                       in if thes_ref \<noteq> [] then sense_def3\<lparr>thesaurus_ref := Some thes_ref\<rparr>
                          else sense_def3)))
      in (st4, if definition_str sense_def4 \<noteq> None then [sense_def4] else []))"

definition longman_entry_pos :: "node \<Rightarrow> pystr" where
  "longman_entry_pos entry =
     (case select_one (css ''.POS'') entry of
        Some pos_elem \<Rightarrow> clean_text (get_text pos_elem)
      | None \<Rightarrow> [])"

text \<open>\<^verbatim>\<open>for sense_idx, sense in enumerate(sense_blocks, 1)\<close>.\<close>

definition enumerate1 :: "'a list \<Rightarrow> (nat \<times> 'a) list" where
  "enumerate1 xs = zip [1 ..< Suc (length xs)] xs"

text \<open>\<open>headword_info\<close>, the dictionary built for one entry.\<close>

record headword_info =
  hw_pronunciation :: "pystr option"
  hw_frequency :: "pystr list option"
  hw_pos :: "pystr option"

definition longman_headword_info :: "node \<Rightarrow> headword_info" where
  "longman_headword_info entry =
     \<lparr>hw_pronunciation =
        (case select_one (css ''.PRON'') entry of
           Some pron_elem \<Rightarrow> Some (clean_text (get_text pron_elem))
         | None \<Rightarrow> None),
      hw_frequency =
        (let freq_elems = select (css ''.FREQ'') entry
         in if freq_elems \<noteq> []
            then Some (map (\<lambda>f. clean_text (case map_of (attrs f) (S ''title'') of
                                               Some t \<Rightarrow> t
                                             | None \<Rightarrow> [])) freq_elems)
            else None),
      hw_pos =
        (case select_one (css ''.POS'') entry of
           Some pos_elem \<Rightarrow> Some (clean_text (get_text pos_elem))
         | None \<Rightarrow> None)\<rparr>"

text \<open>
  One entry: its \<open>headword_info\<close> and the units of its senses. The list of the senses is
  taken once, before the first of them is processed.
\<close>

definition longman_entry ::
  "page_state \<Rightarrow> ref \<Rightarrow> page_state \<times> (headword_info \<times> definition_unit list)" where
  "longman_entry st entry =
     (let hw = longman_headword_info (node_at st entry);
          entry_pos = longman_entry_pos (node_at st entry);
          (st1, units) = for_each (\<lambda>st (sense_idx, sense). longman_sense st sense_idx entry_pos sense)
                           st (enumerate1 (select_refs st (css ''.Sense'') entry))
      in (st1, (hw, concat units)))"

text \<open>
  The senses of an entry with their numbers, and the entries of a page, each with the
  state in which the extractor reaches it.
\<close>

definition sense_runs :: "page_state \<Rightarrow> ref \<Rightarrow> (page_state \<times> nat \<times> ref) list" where
  "sense_runs st entry =
     states_of (\<lambda>st' (sense_idx, sense).
                  longman_sense st' sense_idx (longman_entry_pos (node_at st entry)) sense)
       st (enumerate1 (select_refs st (css ''.Sense'') entry))"

definition entry_runs :: "node \<Rightarrow> (page_state \<times> ref) list" where
  "entry_runs soup =
     states_of longman_entry (initial_state soup)
       (refs_in (css ''.dictentry'') (soup_tree (initial_state soup)))"

text \<open>The corpus examples.\<close>

definition corpus_example :: "page_state \<Rightarrow> ref \<Rightarrow> page_state \<times> pystr" where
  "corpus_example st example =
     (let st1 = decompose_all st (css ''.neutral'') example;
          st2 = replace_with_bracketed st1 (css ''.NodeW'') example;
          st3 = replace_with_string st2 (css ''.defRef'') example
      in (st3, clean_text (get_text (node_at st3 example))))"

definition longman_corpus_section :: "page_state \<Rightarrow> ref \<Rightarrow> page_state \<times> corpus_group list" where
  "longman_corpus_section st corpus_section =
     (case select_one (css ''.title'') (node_at st corpus_section) of
        None \<Rightarrow> (st, [])
      | Some title_elem \<Rightarrow>
          (let (st1, exs) = for_each corpus_example st
                              (select_refs st (css ''.exa'') corpus_section)
           in (st1, if exs \<noteq> []
                    then [\<lparr>title = clean_text (get_text title_elem), group_examples = exs\<rparr>]
                    else [])))"

definition longman_corpus_examples :: "page_state \<Rightarrow> page_state \<times> corpus_group list" where
  "longman_corpus_examples st =
     (let (st1, gs) = for_each longman_corpus_section st
                        (refs_in (css ''.exaGroup'') (soup_tree st))
      in (st1, concat gs))"

text \<open>The verb table.\<close>

definition longman_verb_forms :: "node \<Rightarrow> (pystr \<times> pystr) list" where
  "longman_verb_forms soup =
     (case select_one (css ''table.verbTable'') soup of
        None \<Rightarrow> []
      | Some verb_table \<Rightarrow>
          foldl (\<lambda>verb_forms row.
                   case (select_one (css ''th'') row, select_one (css ''td'') row) of
                     (Some form_cell, Some value_cell) \<Rightarrow>
                       (let form_name = clean_text (get_text form_cell);
                            form_value = clean_text (get_text value_cell)
                        in if form_name \<noteq> [] \<and> form_value \<noteq> []
                           then dict_set form_name form_value verb_forms else verb_forms)
                   | _ \<Rightarrow> verb_forms)
            [] (select (css ''tr'') verb_table))"

text \<open>
  Exceptions. The handler of every extractor returns
  \<^verbatim>\<open>{"source": self.name, "error": str(e), "trace": f"{type(e).__name__} at line {lineno}"}\<close>.
\<close>

record py_exception =
  exc_type :: pystr
  exc_message :: pystr
  tb_lineno :: nat

fun str_nat :: "nat \<Rightarrow> pystr" where
  "str_nat n = (if n < 10 then [48 + n] else str_nat (n div 10) @ [48 + n mod 10])"

declare str_nat.simps [simp del]

definition exception_entry :: "pystr \<Rightarrow> py_exception \<Rightarrow> entry" where
  "exception_entry n e =
     ErrorEntry \<lparr>error_source = n, error = exc_message e,
                 trace = Some (exc_type e @ S '' at line '' @ str_nat (tb_lineno e))\<rparr>"

text \<open>
  \<open>headword_info\<close> is assigned in the loop over the entries only, and read after it at
  line 561 (\<^verbatim>\<open>if headword_info:\<close>). On a page with no \<open>.dictentry\<close> the read raises
  \<open>UnboundLocalError\<close>; the message is the one of Python 3.11 and later.
\<close>

definition unbound_headword_info :: py_exception where
  "unbound_headword_info =
     \<lparr>exc_type = S ''UnboundLocalError'',
      exc_message = S ''cannot access local variable '' @ [39] @ S ''headword_info'' @ [39] @
                    S '' where it is not associated with a value'',
      tb_lineno = 561\<rparr>"

text \<open>The body of \<open>LongmanDictionaryScraper.get_definition\<close> after the page is fetched.\<close>

definition longman_extract :: "node \<Rightarrow> pystr \<Rightarrow> pystr \<Rightarrow> py_exception + normalized_entry" where
  "longman_extract soup w u =
     (let fam_items = longman_word_family soup;
          st0 = initial_state soup;
          entry_sections = refs_in (css ''.dictentry'') (soup_tree st0);
          (st1, entries) = for_each longman_entry st0 entry_sections;
          defs = concat (map snd entries);
          (st2, corpus) = longman_corpus_examples st1;
          forms = longman_verb_forms (erase (soup_tree st2));
          result = result_obj (name LongmanDictionaryScraper) w u defs;
          result1 = (if fam_items \<noteq> [] then result\<lparr>word_family := Some fam_items\<rparr> else result)
      in if entry_sections = [] then Inl unbound_headword_info
         else
           (let hw = fst (last entries);
                result2 =
                  (if hw_pronunciation hw \<noteq> None \<or> hw_frequency hw \<noteq> None \<or> hw_pos hw \<noteq> None
                   then result1\<lparr>pronunciation := hw_pronunciation hw,
                                frequency := hw_frequency hw, headword_pos := hw_pos hw\<rparr>
                   else result1);
                result3 = (if corpus \<noteq> [] then result2\<lparr>corpus_examples := Some corpus\<rparr>
                           else result2);
                result4 = (if forms \<noteq> [] then result3\<lparr>verb_forms := Some forms\<rparr> else result3)
            in Inr result4))"

definition longman_get_definition :: "transport \<Rightarrow> pystr \<Rightarrow> entry" where
  "longman_get_definition fetch_page w =
     (let u = page_url LongmanDictionaryScraper w
      in case fetch_page u of
           None \<Rightarrow> fetch_failure (name LongmanDictionaryScraper)
         | Some soup \<Rightarrow>
             (case longman_extract soup w u of
                Inl e \<Rightarrow> exception_entry (name LongmanDictionaryScraper) e
              | Inr result \<Rightarrow> NormalizedEntry result))"

section \<open>The aggregator\<close>

fun get_definition :: "transport \<Rightarrow> scraper \<Rightarrow> pystr \<Rightarrow> entry" where
  "get_definition fetch_page MerriamWebsterScraper w = mw_get_definition fetch_page w"
| "get_definition fetch_page (CambridgeDictionaryScraper language) w =
     cambridge_get_definition fetch_page language w"
| "get_definition fetch_page LongmanDictionaryScraper w = longman_get_definition fetch_page w"

text \<open>\<open>CombinedDictionaryScraper.initialize\<close>: the list it assigns to \<open>self.scrapers\<close>.\<close>

definition initialize :: "scraper list" where
  "initialize =
     [MerriamWebsterScraper, CambridgeDictionaryScraper (S ''chinese''), LongmanDictionaryScraper]"

record combined_result =
  queried_word :: pystr
  timestamp :: pystr
  sources :: "entry list"

text \<open>
  \<open>get_word_data\<close>: an empty \<open>self.scrapers\<close> is initialised first; \<open>asyncio.gather\<close>
  returns the results in the order of the calls it is given. The second argument is the
  value of \<^verbatim>\<open>datetime.now().isoformat()\<close>.
\<close>

definition configured :: "scraper list \<Rightarrow> scraper list" where
  "configured scrapers = (if scrapers = [] then initialize else scrapers)"

definition get_word_data :: "transport \<Rightarrow> pystr \<Rightarrow> scraper list \<Rightarrow> pystr \<Rightarrow> combined_result" where
  "get_word_data fetch_page now scrapers w =
     \<lparr>queried_word = w, timestamp = now,
      sources = map (\<lambda>scraper. get_definition fetch_page scraper w) (configured scrapers)\<rparr>"

section \<open>Source selection\<close>

text \<open>
  \<open>DictionaryWorker.run_async\<close> ends by emitting \<open>finished\<close> with a result or \<open>error\<close> with
  a message.
\<close>

datatype lookup_result = Combined combined_result | Single entry

datatype signal = Finished lookup_result | Error pystr

text \<open>
  \<open>str.lower\<close>: only the capital letters and the Kelvin sign become ASCII letters, and
  the code writes no lowered string out: it tests it against ASCII aliases. Other code
  points are left as they are.
\<close>

definition py_lower :: "pystr \<Rightarrow> pystr" where
  "py_lower s = map (\<lambda>c. if c = 8490 then 107 else ascii_lower c) s"

fun is_cambridge :: "scraper \<Rightarrow> bool" where
  "is_cambridge (CambridgeDictionaryScraper language) = True"
| "is_cambridge s = False"

text \<open>\<^verbatim>\<open>self.language or "chinese"\<close>.\<close>

definition language_or_chinese :: "pystr option \<Rightarrow> pystr" where
  "language_or_chinese language =
     (case language of None \<Rightarrow> S ''chinese'' | Some l \<Rightarrow> if l = [] then S ''chinese'' else l)"

definition run_async ::
  "transport \<Rightarrow> pystr \<Rightarrow> pystr \<Rightarrow> pystr option \<Rightarrow> pystr option \<Rightarrow> bool \<Rightarrow> signal" where
  "run_async fetch_page now w dictionary language search_all =
     (let scrapers = initialize in
      if search_all then
        Finished (Combined
          (get_word_data fetch_page now
             (filter (\<lambda>s. \<not> is_cambridge s) scrapers @
              [CambridgeDictionaryScraper (language_or_chinese language)]) w))
      else
        (case dictionary of
           None \<Rightarrow>
             Error ([39] @ S ''NoneType'' @ [39] @ S '' object has no attribute '' @ [39] @
                    S ''lower'' @ [39])
         | Some d \<Rightarrow>
             if py_lower d \<in> set [S ''merriam'', S ''merriam-webster'', S ''m'', S ''mw''] then
               (case find (\<lambda>s. s = MerriamWebsterScraper) scrapers of
                  Some s \<Rightarrow> Finished (Single (get_definition fetch_page s w))
                | None \<Rightarrow> Error (S ''Merriam-Webster scraper not found''))
             else if py_lower d \<in> set [S ''longman'', S ''l''] then
               (case find (\<lambda>s. s = LongmanDictionaryScraper) scrapers of
                  Some s \<Rightarrow> Finished (Single (get_definition fetch_page s w))
                | None \<Rightarrow> Error (S ''Longman Dictionary scraper not found''))
             else if py_lower d \<in> set [S ''cambridge'', S ''c''] then
               Finished (Single
                 (get_definition fetch_page
                    (CambridgeDictionaryScraper (language_or_chinese language)) w))
             else Error (S ''Dictionary '' @ d @ S '' not found'')))"

section \<open>Reading entries\<close>

fun entry_source :: "entry \<Rightarrow> pystr" where
  "entry_source (NormalizedEntry r) = source r"
| "entry_source (ErrorEntry e) = error_source e"

text \<open>The keys of an error dictionary.\<close>

definition error_keys :: "error_entry \<Rightarrow> string list" where
  "error_keys e = [''source'', ''error''] @ (if trace e = None then [] else [''trace''])"

section \<open>What the edits keep\<close>

text \<open>
  The edits only take nodes away or put strings in their place. To say so: the tag of a
  node without its content, and the pairs of a tag and a tag below it in a tree. A state
  is within a page if every such pair of its trees is one of the page as parsed.
\<close>

fun is_tag :: "lnode \<Rightarrow> bool" where
  "is_tag (LString s) = False"
| "is_tag (LTag r n cl at ch) = True"

fun shell :: "lnode \<Rightarrow> lnode" where
  "shell (LString s) = LString s"
| "shell (LTag r n cl at ch) = LTag r n cl at []"

definition links :: "lnode \<Rightarrow> (lnode \<times> lnode) set" where
  "links t = {(shell a, shell d) | a d.
                a \<in> set (t # ldescendants t) \<and> d \<in> set (ldescendants a) \<and> is_tag d}"

definition within :: "node \<Rightarrow> page_state \<Rightarrow> bool" where
  "within soup st = (\<forall>t \<in> set (soup_tree st # detached st). links t \<subseteq> links (label [] soup))"

section \<open>Example pages\<close>

definition elem :: "string \<Rightarrow> string list \<Rightarrow> node list \<Rightarrow> node" where
  "elem n cl ch = Tag (S n) (map S cl) [] ch"

definition text_node :: "string \<Rightarrow> node" where
  "text_node s = NavigableString (S s)"

text \<open>A page with no markup that any extractor knows.\<close>

definition bare_page :: node where
  "bare_page = elem ''[document]'' [] [elem ''p'' [] [text_node ''Not found'']]"

definition only_longman_fails :: transport where
  "only_longman_fails u =
     (if u = page_url LongmanDictionaryScraper (S ''combine'') then None else Some bare_page)"

text \<open>
  A Merriam-Webster page whose part-of-speech block holds no sense, with one section of
  the older layout.
\<close>

definition no_sense_page :: node where
  "no_sense_page =
     elem ''[document]'' []
       [elem ''div'' [''vg''] [elem ''p'' [''vd''] [text_node ''verb'']],
        elem ''span'' [''dt''] [text_node '': to mix'']]"






text \<open>
  A Longman page with one entry of two senses: the first has a related word and a
  thesaurus reference but no definition, the second has a definition and an example.
\<close>

definition cross_reference_page :: node where
  "cross_reference_page =
     elem ''[document]'' []
       [elem ''span'' [''dictentry'']
          [elem ''span'' [''POS''] [text_node ''verb''],
           elem ''span'' [''Sense'']
             [elem ''span'' [''RELATEDWD''] [NavigableString (8594 # S '' blend'')],
              elem ''span'' [''Thesref''] [elem ''span'' [''REFHWD''] [text_node ''mix'']]],
           elem ''span'' [''Sense'']
             [elem ''span'' [''DEF''] [text_node ''to '', elem ''a'' [''defRef''] [text_node ''join'']],
              elem ''span'' [''EXAMPLE'']
                [elem ''span'' [''speaker''] [text_node ''icon''], text_node ''Mix it.'']]]]"

text \<open>Pages whose only definition node holds no text.\<close>

definition blank_cambridge_page :: node where
  "blank_cambridge_page =
     elem ''[document]'' []
       [elem ''div'' [''entry-body__el'']
          [elem ''div'' [''def-block''] [elem ''div'' [''def''] [text_node '' '']]]]"

definition blank_longman_page :: node where
  "blank_longman_page =
     elem ''[document]'' []
       [elem ''span'' [''dictentry''] [elem ''span'' [''Sense''] [elem ''span'' [''DEF''] []]]]"

text \<open>
  A page of the older Merriam-Webster layout with eight sections; the first has four
  examples.
\<close>

definition numbered_sections_page :: node where
  "numbered_sections_page =
     elem ''[document]'' []
       (elem ''div'' [''sense'']
          [elem ''span'' [''dtText''] [text_node ''d1''],
           elem ''span'' [''ex-sent''] [text_node ''Example: e1''],
           elem ''span'' [''ex-sent''] [text_node ''e2''],
           elem ''span'' [''ex-sent''] [text_node ''e3''],
           elem ''span'' [''ex-sent''] [text_node ''e4'']] #
        map (\<lambda>d. elem ''div'' [''sense''] [elem ''span'' [''dtText''] [text_node d]])
          [''d2'', ''d3'', ''d4'', ''d5'', ''d6'', ''d7'', ''d8''])"

text \<open>
  A Cambridge page with three entries. The first has six definition blocks; its first
  block has a translation and four examples, the first of them with an English
  sub-example.
\<close>

definition numbered_block :: "string \<Rightarrow> node" where
  "numbered_block d = elem ''div'' [''def-block''] [elem ''div'' [''def''] [text_node d]]"

definition four_examples_block :: node where
  "four_examples_block =
     elem ''div'' [''def-block'']
       [elem ''div'' [''def''] [text_node ''d1''],
        elem ''span'' [''trans'', ''dtrans''] [text_node ''T''],
        elem ''div'' [''examp''] [text_node ''raw '', elem ''span'' [''eg'', ''deg''] [text_node ''e1'']],
        elem ''div'' [''examp''] [text_node ''e2''],
        elem ''div'' [''examp''] [text_node ''e3''],
        elem ''div'' [''examp''] [text_node ''e4'']]"

definition six_blocks_entry :: node where
  "six_blocks_entry =
     elem ''div'' [''entry-body__el'']
       (elem ''span'' [''pos'', ''dpos''] [text_node ''verb''] # four_examples_block #
        map numbered_block [''d2'', ''d3'', ''d4'', ''d5'', ''d6''])"

definition numbered_entries_page :: node where
  "numbered_entries_page =
     elem ''[document]'' []
       [six_blocks_entry, elem ''div'' [''entry-body__el''] [numbered_block ''d7''],
        elem ''div'' [''entry-body__el''] [numbered_block ''d8'']]"

text \<open>
  Longman pages where an edit reaches a node that the extractor selected before: a
  sense inside the speaker icon of an example of the sense before it; a related word
  inside a reference link of the definition; a definition whose reference link holds
  another sense; a corpus example inside the bullet of the example before it.
\<close>

definition sense_in_speaker_page :: node where
  "sense_in_speaker_page =
     elem ''[document]'' []
       [elem ''span'' [''dictentry'']
          [elem ''span'' [''Sense'']
             [elem ''span'' [''DEF''] [text_node ''a''],
              elem ''span'' [''EXAMPLE'']
                [elem ''span'' [''speaker'']
                   [elem ''span'' [''Sense''] [elem ''span'' [''DEF''] [text_node ''b'']]],
                 text_node ''ex'']]]]"

definition related_in_reference_page :: node where
  "related_in_reference_page =
     elem ''[document]'' []
       [elem ''span'' [''dictentry'']
          [elem ''span'' [''Sense'']
             [elem ''span'' [''DEF'']
                [text_node ''to '',
                 elem ''a'' [''defRef''] [elem ''span'' [''RELATEDWD''] [text_node ''join'']]]]]]"

definition sense_in_reference_page :: node where
  "sense_in_reference_page =
     elem ''[document]'' []
       [elem ''span'' [''dictentry'']
          [elem ''span'' [''Sense'']
             [elem ''span'' [''DEF'']
                [text_node ''see '',
                 elem ''a'' [''defRef'']
                   [elem ''span'' [''Sense''] [elem ''span'' [''DEF''] [text_node ''b'']]]]]]]"

definition nested_corpus_page :: node where
  "nested_corpus_page =
     elem ''[document]'' []
       [elem ''span'' [''dictentry''] [],
        elem ''div'' [''exaGroup'']
          [elem ''span'' [''title''] [text_node ''Corpus''],
           elem ''span'' [''exa'']
             [elem ''span'' [''neutral''] [elem ''span'' [''exa''] [text_node ''inner'']],
              text_node ''outer '',
              elem ''span'' [''NodeW''] [text_node ''word'']]]]"

section \<open>The page state\<close>

lemma erase_label:
  "erase (label p x) = x"
  "map erase (label_list p k xs) = xs"
  by (induction p x and p k xs rule: label_label_list.induct) simp_all

lemma descendants_erase: "map erase (ldescendants x) = descendants (erase x)"
  by (induction x rule: ldescendants.induct) (simp_all add: map_concat comp_def cong: map_cong)

lemma length_refs_in: "length (refs_in sel (label p soup)) = length (select sel soup)"
proof -
  have "map erase (filter (\<lambda>d. matches sel (erase d)) (ldescendants (label p soup))) =
        filter (matches sel) (map erase (ldescendants (label p soup)))"
    by (simp add: filter_map comp_def)
  also have "\<dots> = select sel soup"
    by (simp add: descendants_erase erase_label select_def)
  finally have "length (filter (\<lambda>d. matches sel (erase d)) (ldescendants (label p soup))) =
                length (select sel soup)"
    by (metis length_map)
  then show ?thesis
    by (simp add: refs_in_def)
qed

lemma refs_in_empty: "refs_in sel (label p soup) = [] \<longleftrightarrow> select sel soup = []"
  using length_refs_in [of sel p soup] by (metis length_0_conv)

lemma for_each_Cons:
  "fst (for_each f st (x # xs)) = fst (for_each f (fst (f st x)) xs)"
  "snd (for_each f st (x # xs)) = snd (f st x) # snd (for_each f (fst (f st x)) xs)"
  by (simp_all add: split_beta Let_def)

lemma for_each_length: "length (snd (for_each f st xs)) = length xs"
  by (induction xs arbitrary: st) (simp_all add: for_each_Cons del: for_each.simps(2))

lemma for_each_empty: "snd (for_each f st xs) = [] \<longleftrightarrow> xs = []"
  using for_each_length [of f st xs] by (metis length_0_conv)

lemma longman_extract_source:
  "longman_extract soup w u = Inr r \<Longrightarrow> source r = name LongmanDictionaryScraper"
  by (auto simp: longman_extract_def Let_def result_obj_def split: if_splits prod.splits)

section \<open>Properties of the aggregator\<close>

lemma entry_source_get_definition: "entry_source (get_definition fetch_page s w) = name s"
proof (cases s)
  case MerriamWebsterScraper
  then show ?thesis
    by (auto simp: mw_get_definition_def fetch_failure_def mw_extract_def
        legacy_get_definition_def result_obj_def Let_def split: option.splits)
next
  case (CambridgeDictionaryScraper language)
  then show ?thesis
    by (auto simp: cambridge_get_definition_def fetch_failure_def result_obj_def Let_def
        split: option.splits)
next
  case LongmanDictionaryScraper
  then show ?thesis
    by (auto simp: longman_get_definition_def fetch_failure_def exception_entry_def Let_def
        dest: longman_extract_source split: option.splits sum.splits)
qed


lemma get_definition_fetch_None:
  "fetch_page (page_url s w) = None \<Longrightarrow> get_definition fetch_page s w = fetch_failure (name s)"
  by (cases s)
     (simp_all add: mw_get_definition_def cambridge_get_definition_def
        longman_get_definition_def)

lemma get_definition_cong:
  "fetch_page' (page_url s w) = fetch_page (page_url s w) \<Longrightarrow>
   get_definition fetch_page' s w = get_definition fetch_page s w"
  by (cases s)
     (simp_all add: mw_get_definition_def cambridge_get_definition_def
        longman_get_definition_def)

text \<open>
  C2. For every word, \<open>sources\<close> of the result of \<open>get_word_data\<close> holds one entry for
  each configured extractor, in the order of the list of extractors: the entry at a
  position is the one that the extractor at that position returns, and it bears that
  extractor's name whether it is a normalized entry or an error entry. The results are
  collected by position, not by time of completion.
\<close>

theorem get_word_data_sources:
  "sources (get_word_data fetch_page now scrapers w) =
     map (\<lambda>s. get_definition fetch_page s w) (configured scrapers) \<and>
   length (sources (get_word_data fetch_page now scrapers w)) = length (configured scrapers) \<and>
   map entry_source (sources (get_word_data fetch_page now scrapers w)) =
     map name (configured scrapers)"
  by (simp add: get_word_data_def entry_source_get_definition comp_def)

theorem get_word_data_sources_witness:
  "length (sources (get_word_data only_longman_fails [] initialize (S ''combine''))) = 3 \<and>
   map entry_source (sources (get_word_data only_longman_fails [] initialize (S ''combine''))) =
     [S ''Merriam-Webster'', S ''Cambridge Dictionary (English-Chinese)'',
      S ''Longman Dictionary'']"
proof -
  have c: "configured initialize = initialize"
    by (simp add: configured_def initialize_def)
  have n: "map name initialize =
      [S ''Merriam-Webster'', S ''Cambridge Dictionary (English-Chinese)'',
       S ''Longman Dictionary'']"
    by code_simp
  have l: "length initialize = 3"
    by (simp add: initialize_def)
  note th = get_word_data_sources [of only_longman_fails "[]" initialize "S ''combine''"]
  from th [THEN conjunct2, THEN conjunct1] th [THEN conjunct2, THEN conjunct2]
  show ?thesis
    by (simp only: c n l)
qed

text \<open>
  C3. If \<open>fetch_page\<close> returns \<open>None\<close> for the URL of an extractor, the extractor returns
  the error entry with its own name, the message \<open>Failed to fetch page\<close> and no other
  key. The entry of any extractor depends on the transport only through the page at its
  own URL, so the entries of the extractors that fetch other URLs are the ones they
  return when this fetch succeeds.
\<close>

theorem fetch_absent_error_entry:
  assumes "fetch_page (page_url s w) = None"
  shows "get_definition fetch_page s w =
           ErrorEntry \<lparr>error_source = name s, error = S ''Failed to fetch page'', trace = None\<rparr> \<and>
         (\<forall>s' fetch_page'.
            fetch_page' (page_url s' w) = fetch_page (page_url s' w) \<longrightarrow>
            get_definition fetch_page' s' w = get_definition fetch_page s' w)"
proof (intro conjI allI impI)
  show "get_definition fetch_page s w =
          ErrorEntry \<lparr>error_source = name s, error = S ''Failed to fetch page'', trace = None\<rparr>"
    using get_definition_fetch_None [of fetch_page s w, OF assms]
    by (simp only: fetch_failure_def)
next
  fix s' fetch_page'
  assume "fetch_page' (page_url s' w) = fetch_page (page_url s' w)"
  then show "get_definition fetch_page' s' w = get_definition fetch_page s' w"
    by (rule get_definition_cong)
qed

theorem fetch_absent_error_entry_witness:
  "only_longman_fails (page_url LongmanDictionaryScraper (S ''combine'')) = None \<and>
   get_definition only_longman_fails LongmanDictionaryScraper (S ''combine'') =
     ErrorEntry \<lparr>error_source = S ''Longman Dictionary'', error = S ''Failed to fetch page'',
                 trace = None\<rparr> \<and>
   get_definition (\<lambda>u. Some bare_page) MerriamWebsterScraper (S ''combine'') =
     get_definition only_longman_fails MerriamWebsterScraper (S ''combine'')"
proof -
  have absent: "only_longman_fails (page_url LongmanDictionaryScraper (S ''combine'')) = None"
    by code_simp
  have other:
    "(\<lambda>u. Some bare_page) (page_url MerriamWebsterScraper (S ''combine'')) =
     only_longman_fails (page_url MerriamWebsterScraper (S ''combine''))"
    by code_simp
  note th = fetch_absent_error_entry
    [of only_longman_fails LongmanDictionaryScraper "S ''combine''", OF absent]
  have "name LongmanDictionaryScraper = S ''Longman Dictionary''"
    by simp
  with th [THEN conjunct1] th [THEN conjunct2, rule_format, OF other] absent
  show ?thesis
    by simp
qed

section \<open>Properties of the Merriam-Webster extractor\<close>

lemma length_concat_map_le:
  assumes "\<And>x. x \<in> set xs \<Longrightarrow> length (f x) \<le> k"
  shows "length (concat (map f xs)) \<le> k * length xs"
  using assms by (induction xs) (auto simp: add_mono)

lemma legacy_section_length: "length (legacy_section word_type section) \<le> 1"
  by (simp add: legacy_section_def Let_def)

lemma legacy_section_examples:
  "d \<in> set (legacy_section word_type section) \<Longrightarrow>
   examples d =
     Some (map (\<lambda>example. sub_example_prefix (clean_text (get_text example)))
             (take 3 (select (css ''.ex-sent, .t, .vis-example'') section)))"
  by (auto simp: legacy_section_def Let_def definition_obj_def split: if_splits)

text \<open>
  C5. On a fetched Merriam-Webster page where the primary strategy finds no
  part-of-speech block, or gathers no definition from the blocks it finds, the entry
  returned is the result of \<open>_legacy_get_definition\<close> on the same page, whole and
  alone: nothing of the primary strategy is added to it.
\<close>

theorem mw_fallback_is_legacy:
  assumes "fetch_page (page_url MerriamWebsterScraper w) = Some soup"
    and "select (css ''.vg'') soup = [] \<or> mw_primary soup = []"
  shows "get_definition fetch_page MerriamWebsterScraper w =
           NormalizedEntry (legacy_get_definition soup w (page_url MerriamWebsterScraper w))"
  using assms by (auto simp: mw_get_definition_def mw_extract_def Let_def)

theorem mw_fallback_is_legacy_witness:
  "select (css ''.vg'') no_sense_page \<noteq> [] \<and> mw_primary no_sense_page = [] \<and>
   get_definition (\<lambda>u. Some no_sense_page) MerriamWebsterScraper (S ''mix'') =
     NormalizedEntry
       (legacy_get_definition no_sense_page (S ''mix'')
          (page_url MerriamWebsterScraper (S ''mix''))) \<and>
   definitions (legacy_get_definition no_sense_page (S ''mix'')
                  (page_url MerriamWebsterScraper (S ''mix''))) =
     [definition_obj (S ''to mix'') [] []]"
proof -
  have vg: "select (css ''.vg'') no_sense_page \<noteq> []"
    by code_simp
  have primary: "mw_primary no_sense_page = []"
    by code_simp
  have legacy:
    "definitions (legacy_get_definition no_sense_page (S ''mix'')
                    (page_url MerriamWebsterScraper (S ''mix''))) =
       [definition_obj (S ''to mix'') [] []]"
    by code_simp
  have "get_definition (\<lambda>u. Some no_sense_page) MerriamWebsterScraper (S ''mix'') =
     NormalizedEntry
       (legacy_get_definition no_sense_page (S ''mix'')
          (page_url MerriamWebsterScraper (S ''mix'')))"
    by (rule mw_fallback_is_legacy [of "\<lambda>u. Some no_sense_page"]) (simp_all add: primary)
  with vg primary legacy show ?thesis
    by (simp only: simp_thms)
qed

text \<open>
  C9. The legacy extraction of Merriam-Webster reads the first seven matched sections
  and no other: its definitions are those of these sections, in order, at most seven,
  and two pages that agree on them (and on the part of speech) give the same
  definitions. The examples of a unit are those of the first three example nodes of its
  own section, in order; the others are dropped.
\<close>

theorem legacy_caps:
  "definitions (legacy_get_definition soup w u) =
     concat (map (legacy_section
                    (case select_one (css ''span.fl'') soup of
                       Some part_of_speech \<Rightarrow> clean_text (get_text part_of_speech)
                     | None \<Rightarrow> []))
               (take 7 (legacy_sections soup))) \<and>
   length (definitions (legacy_get_definition soup w u)) \<le> 7 \<and>
   (\<forall>d \<in> set (definitions (legacy_get_definition soup w u)).
      \<exists>sec word_type ex.
        sec \<in> set (take 7 (legacy_sections soup)) \<and>
        d \<in> set (legacy_section word_type sec) \<and>
        ex = map (\<lambda>example. sub_example_prefix (clean_text (get_text example)))
               (take 3 (select (css ''.ex-sent, .t, .vis-example'') sec)) \<and>
        examples d = Some ex \<and> length ex \<le> 3) \<and>
   (\<forall>word_type sec d.
      d \<in> set (legacy_section word_type sec) \<longrightarrow>
      examples d =
        Some (map (\<lambda>example. sub_example_prefix (clean_text (get_text example)))
                (take 3 (select (css ''.ex-sent, .t, .vis-example'') sec)))) \<and>
   (\<forall>soup'. take 7 (legacy_sections soup') = take 7 (legacy_sections soup) \<and>
            select_one (css ''span.fl'') soup' = select_one (css ''span.fl'') soup \<longrightarrow>
            definitions (legacy_get_definition soup' w u) =
            definitions (legacy_get_definition soup w u))"
proof (intro conjI ballI allI impI)
  let ?wt = "case select_one (css ''span.fl'') soup of
               Some part_of_speech \<Rightarrow> clean_text (get_text part_of_speech) | None \<Rightarrow> []"
  show defs: "definitions (legacy_get_definition soup w u) =
                concat (map (legacy_section ?wt) (take 7 (legacy_sections soup)))"
    by (simp add: legacy_get_definition_def result_obj_def)
  have "length (concat (map (legacy_section ?wt) (take 7 (legacy_sections soup)))) \<le>
          1 * length (take 7 (legacy_sections soup))"
    by (rule length_concat_map_le) (rule legacy_section_length)
  then show "length (definitions (legacy_get_definition soup w u)) \<le> 7"
    by (simp add: defs)
  fix d
  assume "d \<in> set (definitions (legacy_get_definition soup w u))"
  then obtain sec where sec: "sec \<in> set (take 7 (legacy_sections soup))"
    and d: "d \<in> set (legacy_section ?wt sec)"
    by (auto simp: defs)
  from d have "examples d =
      Some (map (\<lambda>example. sub_example_prefix (clean_text (get_text example)))
              (take 3 (select (css ''.ex-sent, .t, .vis-example'') sec)))"
    by (rule legacy_section_examples)
  with sec d show "\<exists>sec word_type ex.
        sec \<in> set (take 7 (legacy_sections soup)) \<and>
        d \<in> set (legacy_section word_type sec) \<and>
        ex = map (\<lambda>example. sub_example_prefix (clean_text (get_text example)))
               (take 3 (select (css ''.ex-sent, .t, .vis-example'') sec)) \<and>
        examples d = Some ex \<and> length ex \<le> 3"
    by auto
next
  fix word_type sec d
  assume "d \<in> set (legacy_section word_type sec)"
  then show "examples d =
        Some (map (\<lambda>example. sub_example_prefix (clean_text (get_text example)))
                (take 3 (select (css ''.ex-sent, .t, .vis-example'') sec)))"
    by (rule legacy_section_examples)
next
  fix soup'
  assume "take 7 (legacy_sections soup') = take 7 (legacy_sections soup) \<and>
          select_one (css ''span.fl'') soup' = select_one (css ''span.fl'') soup"
  then show "definitions (legacy_get_definition soup' w u) =
             definitions (legacy_get_definition soup w u)"
    by (simp add: legacy_get_definition_def result_obj_def)
qed

theorem legacy_caps_witness:
  "length (legacy_sections numbered_sections_page) = 8 \<and>
   length (select (css ''.ex-sent, .t, .vis-example'')
             (hd (legacy_sections numbered_sections_page))) = 4 \<and>
   definitions (legacy_get_definition numbered_sections_page (S ''mix'') []) =
     definition_obj (S ''d1'') [S ''e1'', S ''e2'', S ''e3''] [] #
     map (\<lambda>d. definition_obj (S d) [] []) [''d2'', ''d3'', ''d4'', ''d5'', ''d6'', ''d7''] \<and>
   length (definitions (legacy_get_definition numbered_sections_page (S ''mix'') [])) \<le> 7"
proof -
  have a: "length (legacy_sections numbered_sections_page) = 8"
    by code_simp
  have b: "length (select (css ''.ex-sent, .t, .vis-example'')
             (hd (legacy_sections numbered_sections_page))) = 4"
    by code_simp
  have c: "definitions (legacy_get_definition numbered_sections_page (S ''mix'') []) =
     definition_obj (S ''d1'') [S ''e1'', S ''e2'', S ''e3''] [] #
     map (\<lambda>d. definition_obj (S d) [] []) [''d2'', ''d3'', ''d4'', ''d5'', ''d6'', ''d7'']"
    by code_simp
  from a b c legacy_caps [of numbered_sections_page "S ''mix''" "[]", THEN conjunct2, THEN conjunct1]
  show ?thesis
    by (simp only: simp_thms)
qed

section \<open>Properties of the Cambridge extractor\<close>

lemma cambridge_block_length: "length (cambridge_block language word_type block) \<le> 1"
  by (simp add: cambridge_block_def Let_def split: option.splits)

lemma cambridge_entry_length: "length (cambridge_entry language entry) \<le> 5"
proof -
  let ?wt = "case select_one (css ''.pos.dpos'') entry of
               Some pos_elem \<Rightarrow> clean_text (get_text pos_elem) | None \<Rightarrow> []"
  let ?blocks = "take 5 (select (css ''.def-block, .ddef_block'') entry)"
  have "length (concat (map (cambridge_block language ?wt) ?blocks)) \<le> 1 * length ?blocks"
    by (rule length_concat_map_le) (rule cambridge_block_length)
  then show ?thesis
    by (simp add: cambridge_entry_def)
qed

lemma cambridge_definitions_length: "length (cambridge_definitions language soup) \<le> 10"
proof -
  let ?entries = "take 2 (select (css ''.entry-body__el'') soup)"
  have "length (concat (map (cambridge_entry language) ?entries)) \<le> 5 * length ?entries"
    by (rule length_concat_map_le) (rule cambridge_entry_length)
  then show ?thesis
    by (simp add: cambridge_definitions_def)
qed

lemma cambridge_block_unit:
  assumes "u \<in> set (cambridge_block language word_type block)"
  shows "examples u = Some (map cambridge_example (take 3 (select (css ''.examp, .dexamp'') block)))"
    and "(translation u \<noteq> None) =
           (has_translation language \<and>
            (\<exists>e. select_one (css ''.trans.dtrans'') block = Some e \<and> clean_text (get_text e) \<noteq> []))"
  using assms
  by (auto simp: cambridge_block_def Let_def definition_obj_def split: option.splits if_splits)

lemma cambridge_definitions_unit:
  assumes "u \<in> set (cambridge_definitions language soup)"
  shows "\<exists>entry block word_type.
           entry \<in> set (take 2 (select (css ''.entry-body__el'') soup)) \<and>
           block \<in> set (take 5 (select (css ''.def-block, .ddef_block'') entry)) \<and>
           u \<in> set (cambridge_block language word_type block)"
  using assms by (auto simp: cambridge_definitions_def cambridge_entry_def Let_def)

lemma cambridge_get_definition_fetched:
  "fetch_page (page_url (CambridgeDictionaryScraper language) w) = Some soup \<Longrightarrow>
   get_definition fetch_page (CambridgeDictionaryScraper language) w =
     NormalizedEntry
       (result_obj (name (CambridgeDictionaryScraper language)) w
          (page_url (CambridgeDictionaryScraper language) w)
          (cambridge_definitions language soup))"
  by (simp add: cambridge_get_definition_def Let_def)

lemma definitions_result_obj: "definitions (result_obj n w u ds) = ds"
  by (simp add: result_obj_def)

text \<open>
  C7. On a fetched Cambridge page the extractor returns a normalized entry, never an
  error. Its definitions are those of the first five definition blocks of each of the
  first two entries, in order, and of no other block or entry: at most ten, and the
  same for two pages that agree on these entries, or two entries that agree on these
  blocks. The examples of a unit are those of the first three example nodes of its own
  block, and an example is the text of its English sub-example where it has one, the
  text of the whole example node otherwise.
\<close>

theorem cambridge_caps:
  assumes "fetch_page (page_url (CambridgeDictionaryScraper language) w) = Some soup"
  shows "\<exists>r. get_definition fetch_page (CambridgeDictionaryScraper language) w = NormalizedEntry r \<and>
           definitions r = cambridge_definitions language soup \<and>
           definitions r =
             concat (map (\<lambda>entry.
                       concat (map (cambridge_block language
                                      (case select_one (css ''.pos.dpos'') entry of
                                         Some pos_elem \<Rightarrow> clean_text (get_text pos_elem)
                                       | None \<Rightarrow> []))
                                 (take 5 (select (css ''.def-block, .ddef_block'') entry))))
                    (take 2 (select (css ''.entry-body__el'') soup))) \<and>
           length (definitions r) \<le> 10 \<and>
           (\<forall>u \<in> set (definitions r).
              \<exists>entry block word_type ex.
                entry \<in> set (take 2 (select (css ''.entry-body__el'') soup)) \<and>
                block \<in> set (take 5 (select (css ''.def-block, .ddef_block'') entry)) \<and>
                u \<in> set (cambridge_block language word_type block) \<and>
                ex = map cambridge_example (take 3 (select (css ''.examp, .dexamp'') block)) \<and>
                examples u = Some ex \<and> length ex \<le> 3) \<and>
           (\<forall>word_type block u.
              u \<in> set (cambridge_block language word_type block) \<longrightarrow>
              examples u =
                Some (map cambridge_example (take 3 (select (css ''.examp, .dexamp'') block)))) \<and>
           (\<forall>soup'. take 2 (select (css ''.entry-body__el'') soup') =
                      take 2 (select (css ''.entry-body__el'') soup) \<longrightarrow>
                    cambridge_definitions language soup' = cambridge_definitions language soup) \<and>
           (\<forall>entry entry'.
              take 5 (select (css ''.def-block, .ddef_block'') entry') =
              take 5 (select (css ''.def-block, .ddef_block'') entry) \<and>
              select_one (css ''.pos.dpos'') entry' = select_one (css ''.pos.dpos'') entry \<longrightarrow>
              cambridge_entry language entry' = cambridge_entry language entry) \<and>
           (\<forall>entry. length (cambridge_entry language entry) \<le> 5) \<and>
           (\<forall>example eng. select_one (css ''.eg.deg'') example = Some eng \<longrightarrow>
                          cambridge_example example = clean_text (get_text eng)) \<and>
           (\<forall>example. select_one (css ''.eg.deg'') example = None \<longrightarrow>
                      cambridge_example example = clean_text (get_text example))"
proof -
  let ?r = "result_obj (name (CambridgeDictionaryScraper language)) w
              (page_url (CambridgeDictionaryScraper language) w)
              (cambridge_definitions language soup)"
  have r: "get_definition fetch_page (CambridgeDictionaryScraper language) w = NormalizedEntry ?r"
    using assms by (rule cambridge_get_definition_fetched)
  have d: "definitions ?r = cambridge_definitions language soup"
    by (rule definitions_result_obj)
  have unfolded: "cambridge_definitions language soup =
             concat (map (\<lambda>entry.
                       concat (map (cambridge_block language
                                      (case select_one (css ''.pos.dpos'') entry of
                                         Some pos_elem \<Rightarrow> clean_text (get_text pos_elem)
                                       | None \<Rightarrow> []))
                                 (take 5 (select (css ''.def-block, .ddef_block'') entry))))
                    (take 2 (select (css ''.entry-body__el'') soup)))"
    by (simp add: cambridge_definitions_def cambridge_entry_def Let_def cong: map_cong)
  have units: "\<exists>entry block word_type ex.
                entry \<in> set (take 2 (select (css ''.entry-body__el'') soup)) \<and>
                block \<in> set (take 5 (select (css ''.def-block, .ddef_block'') entry)) \<and>
                u \<in> set (cambridge_block language word_type block) \<and>
                ex = map cambridge_example (take 3 (select (css ''.examp, .dexamp'') block)) \<and>
                examples u = Some ex \<and> length ex \<le> 3"
    if "u \<in> set (cambridge_definitions language soup)" for u
  proof -
    from that obtain entry block word_type where
      "entry \<in> set (take 2 (select (css ''.entry-body__el'') soup))"
      "block \<in> set (take 5 (select (css ''.def-block, .ddef_block'') entry))"
      and u: "u \<in> set (cambridge_block language word_type block)"
      using cambridge_definitions_unit by blast
    moreover from u have "examples u =
        Some (map cambridge_example (take 3 (select (css ''.examp, .dexamp'') block)))"
      by (rule cambridge_block_unit)
    ultimately show ?thesis
      by auto
  qed
  have block_examples: "examples u =
        Some (map cambridge_example (take 3 (select (css ''.examp, .dexamp'') block)))"
    if "u \<in> set (cambridge_block language word_type block)" for word_type block u
    using that by (rule cambridge_block_unit)
  have same: "cambridge_definitions language soup' = cambridge_definitions language soup"
    if "take 2 (select (css ''.entry-body__el'') soup') =
        take 2 (select (css ''.entry-body__el'') soup)" for soup'
    using that by (simp add: cambridge_definitions_def)
  have same_blocks: "cambridge_entry language entry' = cambridge_entry language entry"
    if "take 5 (select (css ''.def-block, .ddef_block'') entry') =
        take 5 (select (css ''.def-block, .ddef_block'') entry) \<and>
        select_one (css ''.pos.dpos'') entry' = select_one (css ''.pos.dpos'') entry"
    for entry entry'
    using that by (simp add: cambridge_entry_def)
  have pref: "cambridge_example example = clean_text (get_text eng)"
    if "select_one (css ''.eg.deg'') example = Some eng" for example eng
    using that by (simp add: cambridge_example_def)
  have raw: "cambridge_example example = clean_text (get_text example)"
    if "select_one (css ''.eg.deg'') example = None" for example
    using that by (simp add: cambridge_example_def)
  show ?thesis
  proof (intro exI [of _ ?r] conjI)
    show "get_definition fetch_page (CambridgeDictionaryScraper language) w = NormalizedEntry ?r"
      by (rule r)
    show "definitions ?r = cambridge_definitions language soup"
      by (rule d)
    show "definitions ?r =
             concat (map (\<lambda>entry.
                       concat (map (cambridge_block language
                                      (case select_one (css ''.pos.dpos'') entry of
                                         Some pos_elem \<Rightarrow> clean_text (get_text pos_elem)
                                       | None \<Rightarrow> []))
                                 (take 5 (select (css ''.def-block, .ddef_block'') entry))))
                    (take 2 (select (css ''.entry-body__el'') soup)))"
      by (rule trans [OF d unfolded])
    show "length (definitions ?r) \<le> 10"
      by (simp only: d cambridge_definitions_length)
    show "\<forall>u \<in> set (definitions ?r).
              \<exists>entry block word_type ex.
                entry \<in> set (take 2 (select (css ''.entry-body__el'') soup)) \<and>
                block \<in> set (take 5 (select (css ''.def-block, .ddef_block'') entry)) \<and>
                u \<in> set (cambridge_block language word_type block) \<and>
                ex = map cambridge_example (take 3 (select (css ''.examp, .dexamp'') block)) \<and>
                examples u = Some ex \<and> length ex \<le> 3"
      unfolding d using units by blast
    show "\<forall>word_type block u.
              u \<in> set (cambridge_block language word_type block) \<longrightarrow>
              examples u =
                Some (map cambridge_example (take 3 (select (css ''.examp, .dexamp'') block)))"
      using block_examples by blast
    show "\<forall>soup'. take 2 (select (css ''.entry-body__el'') soup') =
                      take 2 (select (css ''.entry-body__el'') soup) \<longrightarrow>
                    cambridge_definitions language soup' = cambridge_definitions language soup"
      using same by blast
    show "\<forall>entry entry'.
              take 5 (select (css ''.def-block, .ddef_block'') entry') =
              take 5 (select (css ''.def-block, .ddef_block'') entry) \<and>
              select_one (css ''.pos.dpos'') entry' = select_one (css ''.pos.dpos'') entry \<longrightarrow>
              cambridge_entry language entry' = cambridge_entry language entry"
      using same_blocks by blast
    show "\<forall>entry. length (cambridge_entry language entry) \<le> 5"
      using cambridge_entry_length by blast
    show "\<forall>example eng. select_one (css ''.eg.deg'') example = Some eng \<longrightarrow>
                          cambridge_example example = clean_text (get_text eng)"
      using pref by blast
    show "\<forall>example. select_one (css ''.eg.deg'') example = None \<longrightarrow>
                      cambridge_example example = clean_text (get_text example)"
      using raw by blast
  qed
qed

theorem cambridge_caps_witness:
  "length (select (css ''.entry-body__el'') numbered_entries_page) = 3 \<and>
   length (select (css ''.def-block, .ddef_block'') six_blocks_entry) = 6 \<and>
   length (select (css ''.examp, .dexamp'') four_examples_block) = 4 \<and>
   (\<exists>r. get_definition (\<lambda>u. Some numbered_entries_page) (CambridgeDictionaryScraper (S ''chinese''))
           (S ''join'') = NormalizedEntry r \<and>
        definitions r =
          (definition_obj (S ''d1'') [S ''e1'', S ''e2'', S ''e3''] (S ''verb''))
            \<lparr>translation := Some (S ''T'')\<rparr> #
          map (\<lambda>d. definition_obj (S d) [] (S ''verb'')) [''d2'', ''d3'', ''d4'', ''d5''] @
          [definition_obj (S ''d7'') [] []])"
proof -
  have a: "length (select (css ''.entry-body__el'') numbered_entries_page) = 3"
    by code_simp
  have b: "length (select (css ''.def-block, .ddef_block'') six_blocks_entry) = 6"
    by code_simp
  have c: "length (select (css ''.examp, .dexamp'') four_examples_block) = 4"
    by code_simp
  have d: "cambridge_definitions (S ''chinese'') numbered_entries_page =
          (definition_obj (S ''d1'') [S ''e1'', S ''e2'', S ''e3''] (S ''verb''))
            \<lparr>translation := Some (S ''T'')\<rparr> #
          map (\<lambda>d. definition_obj (S d) [] (S ''verb'')) [''d2'', ''d3'', ''d4'', ''d5''] @
          [definition_obj (S ''d7'') [] []]"
    by code_simp
  have "(\<lambda>u. Some numbered_entries_page)
          (page_url (CambridgeDictionaryScraper (S ''chinese'')) (S ''join'')) =
        Some numbered_entries_page"
    by simp
  from cambridge_caps [OF this] obtain r where
    "get_definition (\<lambda>u. Some numbered_entries_page) (CambridgeDictionaryScraper (S ''chinese''))
       (S ''join'') = NormalizedEntry r"
    and "definitions r = cambridge_definitions (S ''chinese'') numbered_entries_page"
    by blast
  with a b c d show ?thesis
    by auto
qed






section \<open>Properties of the Longman extractor\<close>

lemma for_each_states:
  "snd (for_each f st xs) = map (\<lambda>(st', x). snd (f st' x)) (states_of f st xs)"
  by (induction xs arbitrary: st) (simp_all add: for_each_Cons del: for_each.simps(2))

lemma concat_map_filter:
  assumes "\<And>x. x \<in> set xs \<Longrightarrow> \<not> P x \<Longrightarrow> f x = []"
  shows "concat (map f (filter P xs)) = concat (map f xs)"
  using assms by (induction xs) auto

lemma longman_sense_without_def:
  "select_one_ref st (css ''.DEF'') sense = None \<Longrightarrow> snd (longman_sense st i p sense) = []"
  by (simp add: longman_sense_def Let_def split: option.splits)

lemma longman_sense_with_def:
  "select_one_ref st (css ''.DEF'') sense = Some e \<Longrightarrow>
   length (snd (longman_sense st i p sense)) = 1"
  by (simp add: longman_sense_def Let_def split_beta split: option.splits)

lemma longman_entry_units:
  "snd (snd (longman_entry st entry)) =
     concat (map (\<lambda>(st', sense_idx, sense).
                    snd (longman_sense st' sense_idx (longman_entry_pos (node_at st entry)) sense))
               (filter (\<lambda>(st', sense_idx, sense). select_one_ref st' (css ''.DEF'') sense \<noteq> None)
                  (sense_runs st entry)))"
proof -
  let ?f = "\<lambda>st' (sense_idx, sense).
              longman_sense st' sense_idx (longman_entry_pos (node_at st entry)) sense"
  have "snd (snd (longman_entry st entry)) =
        concat (snd (for_each ?f st (enumerate1 (select_refs st (css ''.Sense'') entry))))"
    by (simp add: longman_entry_def Let_def split_beta)
  also have "\<dots> = concat (map (\<lambda>(st', x). snd (?f st' x)) (sense_runs st entry))"
    by (simp only: for_each_states sense_runs_def)
  also have "\<dots> = concat (map (\<lambda>(st', x). snd (?f st' x))
                (filter (\<lambda>(st', sense_idx, sense). select_one_ref st' (css ''.DEF'') sense \<noteq> None)
                   (sense_runs st entry)))"
    by (rule concat_map_filter [symmetric]) (auto simp: longman_sense_without_def)
  finally show ?thesis
    by (simp add: case_prod_unfold)
qed

lemma longman_extract_definitions:
  assumes "longman_extract soup w u = Inr r"
  shows "definitions r =
           concat (map (\<lambda>(st, entry). snd (snd (longman_entry st entry))) (entry_runs soup))"
proof -
  from assms have "definitions r =
      concat (map snd (snd (for_each longman_entry (initial_state soup)
                              (refs_in (css ''.dictentry'') (soup_tree (initial_state soup))))))"
    by (auto simp: longman_extract_def Let_def result_obj_def split_beta split: if_splits)
  then show ?thesis
    by (simp add: for_each_states entry_runs_def case_prod_unfold comp_def)
qed

lemma longman_get_definition_Inr:
  assumes "get_definition fetch_page LongmanDictionaryScraper w = NormalizedEntry r"
    and "fetch_page (page_url LongmanDictionaryScraper w) = Some soup"
  shows "longman_extract soup w (page_url LongmanDictionaryScraper w) = Inr r"
  using assms
  by (auto simp: longman_get_definition_def Let_def exception_entry_def split: sum.splits)

subsection \<open>The page as parsed and the page as edited\<close>

lemma ldescendants_trans:
  "a \<in> set (ldescendants t) \<Longrightarrow> d \<in> set (ldescendants a) \<Longrightarrow> d \<in> set (ldescendants t)"
proof (induction t)
  case (LString s)
  then show ?case by simp
next
  case (LTag r n cl at ch)
  from LTag.prems(1) obtain c where c: "c \<in> set ch" "a = c \<or> a \<in> set (ldescendants c)"
    by auto
  with LTag.IH LTag.prems(2) have "d \<in> set (ldescendants c)"
    by auto
  with c(1) show ?case
    by auto
qed

lemma links_I:
  "a \<in> set (t # ldescendants t) \<Longrightarrow> d \<in> set (ldescendants a) \<Longrightarrow> is_tag d \<Longrightarrow>
   (shell a, shell d) \<in> links t"
  unfolding links_def by blast

lemma links_empty_tag [simp]: "links (LTag r n cl at []) = {}"
  by (simp add: links_def)

lemma links_sub:
  assumes "a \<in> set (t # ldescendants t)"
  shows "links a \<subseteq> links t"
  using assms unfolding links_def
  by (auto dest: ldescendants_trans)

lemma shell_remove_ref [simp]: "shell (remove_ref r d) = shell d"
  by (cases d) simp_all

lemma is_tag_remove_ref [simp]: "is_tag (remove_ref r d) = is_tag d"
  by (cases d) simp_all

lemma ldescendants_remove_ref:
  "d' \<in> set (ldescendants (remove_ref r t)) \<Longrightarrow> \<exists>d \<in> set (ldescendants t). d' = remove_ref r d"
proof (induction t)
  case (LString s)
  then show ?case by simp
next
  case (LTag r' n cl at ch)
  from LTag.prems obtain c where c: "c \<in> set ch"
    "d' = remove_ref r c \<or> d' \<in> set (ldescendants (remove_ref r c))"
    by auto
  with LTag.IH have "d' = remove_ref r c \<or> (\<exists>d \<in> set (ldescendants c). d' = remove_ref r d)"
    by blast
  with c(1) show ?case
    by auto
qed

lemma links_remove_ref: "links (remove_ref r t) \<subseteq> links t"
proof
  fix p
  assume "p \<in> links (remove_ref r t)"
  then obtain a' d' where p: "p = (shell a', shell d')"
    and a': "a' = remove_ref r t \<or> a' \<in> set (ldescendants (remove_ref r t))"
    and d': "d' \<in> set (ldescendants a')" "is_tag d'"
    unfolding links_def by auto
  from a' obtain a where a: "a \<in> set (t # ldescendants t)" "a' = remove_ref r a"
    using ldescendants_remove_ref by fastforce
  from d'(1) a(2) obtain d where d: "d \<in> set (ldescendants a)" "d' = remove_ref r d"
    using ldescendants_remove_ref by blast
  from p a d d'(2) show "p \<in> links t"
    unfolding links_def by auto
qed

lemma shell_replace_ref [simp]: "shell (replace_ref r new d) = shell d"
  by (cases d) simp_all

lemma is_tag_replace_ref [simp]: "is_tag (replace_ref r new d) = is_tag d"
  by (cases d) simp_all

lemma ldescendants_replace_ref:
  "d' \<in> set (ldescendants (replace_ref r (LString s) t)) \<Longrightarrow>
   d' = LString s \<or> (\<exists>d \<in> set (ldescendants t). d' = replace_ref r (LString s) d)"
proof (induction t)
  case (LString s')
  then show ?case by simp
next
  case (LTag r' n cl at ch)
  from LTag.prems obtain c where c: "c \<in> set ch"
    "d' = LString s \<or> d' = replace_ref r (LString s) c \<or>
     d' \<in> set (ldescendants (replace_ref r (LString s) c))"
    by (auto split: if_splits)
  with LTag.IH have "d' = LString s \<or> d' = replace_ref r (LString s) c \<or>
     (\<exists>d \<in> set (ldescendants c). d' = replace_ref r (LString s) d)"
    by blast
  with c(1) show ?case
    by auto
qed

lemma links_replace_ref: "links (replace_ref r (LString s) t) \<subseteq> links t"
proof
  fix p
  assume "p \<in> links (replace_ref r (LString s) t)"
  then obtain a' d' where p: "p = (shell a', shell d')"
    and a': "a' = replace_ref r (LString s) t \<or>
             a' \<in> set (ldescendants (replace_ref r (LString s) t))"
    and d': "d' \<in> set (ldescendants a')" "is_tag d'"
    unfolding links_def by auto
  from d'(1) have "a' \<noteq> LString s"
    by auto
  with a' obtain a where a: "a \<in> set (t # ldescendants t)" "a' = replace_ref r (LString s) a"
    using ldescendants_replace_ref by fastforce
  from d' a(2) obtain d where d: "d \<in> set (ldescendants a)" "d' = replace_ref r (LString s) d"
    using ldescendants_replace_ref by fastforce
  from p a d d'(2) show "p \<in> links t"
    unfolding links_def by auto
qed

lemma shell_without_string [simp]: "shell (without_string d) = shell d"
  by (induction d rule: without_string.induct) simp_all

lemma is_tag_without_string [simp]: "is_tag (without_string d) = is_tag d"
  by (induction d rule: without_string.induct) simp_all

lemma tags_without_string:
  "d' \<in> set (without_string t # ldescendants (without_string t)) \<Longrightarrow> is_tag d' \<Longrightarrow>
   \<exists>d \<in> set (t # ldescendants t). shell d = shell d' \<and> is_tag d"
proof (induction t arbitrary: d' rule: without_string.induct)
  case (1 r n cl at s)
  then show ?case by auto
next
  case (2 r n cl at r' n' cl' at' ch')
  let ?c = "LTag r' n' cl' at' ch'"
  from "2.prems"(1) have "d' = LTag r n cl at [without_string ?c] \<or>
      d' \<in> set (without_string ?c # ldescendants (without_string ?c))"
    by (simp only: without_string.simps ldescendants.simps list.map concat.simps append_Nil2
          set_simps insert_iff)
  then show ?case
  proof
    assume "d' = LTag r n cl at [without_string ?c]"
    then show ?thesis by simp
  next
    assume "d' \<in> set (without_string ?c # ldescendants (without_string ?c))"
    from "2.IH" [OF this "2.prems"(2)]
    obtain d where "d \<in> set (?c # ldescendants ?c)" "shell d = shell d'" "is_tag d"
      by blast
    then show ?thesis
      by (intro bexI [of _ d]) auto
  qed
qed auto

lemma links_without_string: "links (without_string t) \<subseteq> links t"
proof (induction t rule: without_string.induct)
  case (1 r n cl at s)
  show ?case by simp
next
  case (2 r n cl at r' n' cl' at' ch')
  let ?c = "LTag r' n' cl' at' ch'"
  let ?T = "LTag r n cl at [?c]"
  let ?T' = "LTag r n cl at [without_string ?c]"
  have c: "?c \<in> set (?T # ldescendants ?T)"
    by simp
  show ?case
  proof
    fix p
    assume "p \<in> links (without_string ?T)"
    then have "p \<in> links ?T'"
      by (simp only: without_string.simps)
    then obtain a' d' where p: "p = (shell a', shell d')"
      and a': "a' = ?T' \<or> a' \<in> set (without_string ?c # ldescendants (without_string ?c))"
      and d': "d' \<in> set (ldescendants a')" "is_tag d'"
      unfolding links_def by auto
    from a' show "p \<in> links ?T"
    proof
      assume a: "a' = ?T'"
      with d'(1) have "d' \<in> set (without_string ?c # ldescendants (without_string ?c))"
        by simp
      from tags_without_string [OF this d'(2)]
      obtain d where d: "d \<in> set (?c # ldescendants ?c)" "shell d = shell d'" "is_tag d"
        by blast
      from d(1) have "d \<in> set (ldescendants ?T)"
        by simp
      with d(3) have "(shell ?T, shell d) \<in> links ?T"
        by (intro links_I) simp_all
      with d(2) p a show ?thesis
        by simp
    next
      assume "a' \<in> set (without_string ?c # ldescendants (without_string ?c))"
      with p d' have "p \<in> links (without_string ?c)"
        by (simp only: links_I)
      with 2 have "p \<in> links ?c"
        by blast
      with links_sub [OF c] show ?thesis
        by blast
    qed
  qed
qed simp_all

lemma links_lookup:
  assumes "within soup st"
  shows "links (lookup st x) \<subseteq> links (label [] soup)"
proof (cases "find (is_ref x) (all_nodes st)")
  case None
  then show ?thesis
    by (simp add: lookup_def)
next
  case (Some t)
  then have "t \<in> set (all_nodes st)"
    by (auto simp: find_Some_iff)
  then obtain T where T: "T \<in> set (soup_tree st # detached st)" "t \<in> set (T # ldescendants T)"
    by (auto simp: all_nodes_def)
  from T(2) have "links t \<subseteq> links T"
    by (rule links_sub)
  with T(1) assms Some show ?thesis
    by (auto simp: lookup_def within_def)
qed

lemma within_initial_state: "within soup (initial_state soup)"
  by (simp add: within_def initial_state_def)

lemma within_decompose:
  assumes "within soup st"
  shows "within soup (decompose st r)"
  unfolding within_def
proof
  fix t
  assume "t \<in> set (soup_tree (decompose st r) # detached (decompose st r))"
  then obtain t0 where "t0 \<in> set (soup_tree st # detached st)" "t = remove_ref r t0"
    by (auto simp: decompose_def)
  with assms links_remove_ref [of r t0] show "links t \<subseteq> links (label [] soup)"
    unfolding within_def by blast
qed

lemma within_replace_with:
  assumes "within soup st" and "links rest \<subseteq> links (label [] soup)"
  shows "within soup (replace_with st r (LString s) rest)"
proof (cases "is_child st r")
  case False
  with assms(1) show ?thesis
    by (simp add: replace_with_def)
next
  case True
  show ?thesis
    unfolding within_def
  proof
    fix t
    assume "t \<in> set (soup_tree (replace_with st r (LString s) rest) #
                      detached (replace_with st r (LString s) rest))"
    with True have "t = rest \<or>
        (\<exists>t0 \<in> set (soup_tree st # detached st). t = replace_ref r (LString s) t0)"
      by (auto simp: replace_with_def)
    then show "links t \<subseteq> links (label [] soup)"
    proof
      assume "t = rest"
      with assms(2) show ?thesis by simp
    next
      assume "\<exists>t0 \<in> set (soup_tree st # detached st). t = replace_ref r (LString s) t0"
      then obtain t0 where "t0 \<in> set (soup_tree st # detached st)"
        "t = replace_ref r (LString s) t0"
        by blast
      with assms(1) links_replace_ref [of r s t0] show ?thesis
        unfolding within_def by blast
    qed
  qed
qed

lemma foldl_preserves:
  assumes "\<And>st x. P st \<Longrightarrow> P (f st x)" and "P st"
  shows "P (foldl f st xs)"
  using assms(2) by (induction xs arbitrary: st) (simp_all add: assms(1))

lemma within_decompose_all:
  assumes "within soup st"
  shows "within soup (decompose_all st sel r)"
  unfolding decompose_all_def
  using assms by (rule foldl_preserves [rotated]) (rule within_decompose)

lemma within_replace_with_string:
  assumes "within soup st"
  shows "within soup (replace_with_string st sel r)"
  unfolding replace_with_string_def
  using assms
proof (rule foldl_preserves [rotated])
  fix st' x
  assume w: "within soup st'"
  have "links (without_string (lookup st' x)) \<subseteq> links (label [] soup)"
    using links_without_string links_lookup [OF w] by blast
  with w show "within soup (case tag_string (node_at st' x) of
                      None \<Rightarrow> st'
                    | Some s \<Rightarrow>
                        if s \<noteq> [] then replace_with st' x (LString s) (without_string (lookup st' x))
                        else st')"
    by (auto split: option.splits intro: within_replace_with)
qed

lemma within_replace_with_bracketed:
  assumes "within soup st"
  shows "within soup (replace_with_bracketed st sel r)"
  unfolding replace_with_bracketed_def
  using assms
proof (rule foldl_preserves [rotated])
  fix st' x
  assume w: "within soup st'"
  with links_lookup [OF w]
  show "within soup (case tag_string (node_at st' x) of
                      None \<Rightarrow> st'
                    | Some s \<Rightarrow>
                        if s \<noteq> [] then replace_with st' x (LString (S ''['' @ s @ S '']'')) (lookup st' x)
                        else st')"
    by (auto split: option.splits intro: within_replace_with)
qed

lemma for_each_fst_Cons:
  "fst (for_each f st (x # xs)) = fst (for_each f (fst (f st x)) xs)"
  by (simp add: split_beta Let_def)

lemma for_each_preserves:
  assumes "\<And>st x. P st \<Longrightarrow> P (fst (f st x))" and "P st"
  shows "P (fst (for_each f st xs))"
  using assms(2)
proof (induction xs arbitrary: st)
  case Nil
  then show ?case by simp
next
  case (Cons x xs)
  from Cons.prems have "P (fst (f st x))"
    by (rule assms(1))
  then have "P (fst (for_each f (fst (f st x)) xs))"
    by (rule Cons.IH)
  then show ?case
    by (simp only: for_each_fst_Cons)
qed

lemma states_of_preserves:
  assumes "\<And>st x. P st \<Longrightarrow> P (fst (f st x))" and "P st"
    and "(st', y) \<in> set (states_of f st xs)"
  shows "P st'"
  using assms(2,3)
proof (induction xs arbitrary: st)
  case Nil
  then show ?case by simp
next
  case (Cons x xs)
  from Cons.prems(2) have "(st', y) = (st, x) \<or> (st', y) \<in> set (states_of f (fst (f st x)) xs)"
    by simp
  then show ?case
  proof
    assume "(st', y) = (st, x)"
    with Cons.prems(1) show ?thesis by simp
  next
    assume *: "(st', y) \<in> set (states_of f (fst (f st x)) xs)"
    from Cons.prems(1) have "P (fst (f st x))"
      by (rule assms(1))
    then show ?thesis
      using * by (rule Cons.IH)
  qed
qed

lemma within_example_without_speaker:
  "within soup st \<Longrightarrow> within soup (fst (example_without_speaker st ex))"
  by (simp add: example_without_speaker_def Let_def within_decompose_all)

lemma within_longman_example:
  "within soup st \<Longrightarrow> within soup (fst (longman_example st ex))"
  by (simp add: longman_example_def Let_def within_decompose_all within_replace_with_string)

lemma within_longman_pattern:
  assumes "within soup st"
  shows "within soup (fst (longman_pattern st x))"
proof -
  have "within soup (fst (for_each example_without_speaker st xs))" for xs
    using assms by (rule for_each_preserves [rotated]) (rule within_example_without_speaker)
  with assms show ?thesis
    by (simp add: longman_pattern_def Let_def split_beta split: option.splits)
qed

lemma within_longman_patterns:
  assumes "within soup st"
  shows "within soup (fst (longman_patterns st x))"
proof -
  have "within soup (fst (for_each longman_pattern st xs))" for xs
    using assms by (rule for_each_preserves [rotated]) (rule within_longman_pattern)
  then show ?thesis
    by (simp add: longman_patterns_def Let_def split_beta)
qed

lemma within_longman_collocation:
  assumes "within soup st"
  shows "within soup (fst (longman_collocation st x))"
proof -
  have "within soup (fst (for_each example_without_speaker st xs))" for xs
    using assms by (rule for_each_preserves [rotated]) (rule within_example_without_speaker)
  with assms show ?thesis
    by (simp add: longman_collocation_def Let_def split_beta split: option.splits)
qed

lemma within_longman_collocations:
  assumes "within soup st"
  shows "within soup (fst (longman_collocations st x))"
proof -
  have "within soup (fst (for_each longman_collocation st xs))" for xs
    using assms by (rule for_each_preserves [rotated]) (rule within_longman_collocation)
  then show ?thesis
    by (simp add: longman_collocations_def Let_def split_beta)
qed

lemma fst_longman_sense:
  "fst (longman_sense st i p sense) =
     (case select_one_ref st (css ''.DEF'') sense of
        None \<Rightarrow> st
      | Some definition_elem \<Rightarrow>
          (let st1 = replace_with_string st (css ''.defRef'') definition_elem;
               st2 = fst (for_each longman_example st1 (select_refs st1 (css ''.EXAMPLE'') sense));
               st3 = fst (longman_patterns st2 sense)
           in fst (longman_collocations st3 sense)))"
  by (simp add: longman_sense_def Let_def split_beta split: option.splits)

lemma within_longman_sense:
  assumes "within soup st"
  shows "within soup (fst (longman_sense st i p sense))"
proof (cases "select_one_ref st (css ''.DEF'') sense")
  case None
  with assms show ?thesis
    by (simp add: fst_longman_sense)
next
  case (Some definition_elem)
  define st1 where "st1 = replace_with_string st (css ''.defRef'') definition_elem"
  define st2 where
    "st2 = fst (for_each longman_example st1 (select_refs st1 (css ''.EXAMPLE'') sense))"
  define st3 where "st3 = fst (longman_patterns st2 sense)"
  have 1: "within soup st1"
    unfolding st1_def using assms by (rule within_replace_with_string)
  have 2: "within soup st2"
    unfolding st2_def using 1 by (rule for_each_preserves [rotated]) (rule within_longman_example)
  have 3: "within soup st3"
    unfolding st3_def using 2 by (rule within_longman_patterns)
  have "within soup (fst (longman_collocations st3 sense))"
    using 3 by (rule within_longman_collocations)
  then show ?thesis
    by (simp add: fst_longman_sense Some Let_def st1_def st2_def st3_def)
qed

lemma within_longman_entry:
  assumes "within soup st"
  shows "within soup (fst (longman_entry st entry))"
proof -
  have "within soup (fst (for_each (\<lambda>st (sense_idx, sense). longman_sense st sense_idx p sense) st xs))"
    for xs p
    using assms
  proof (rule for_each_preserves [rotated])
    fix st' :: page_state and x :: "nat \<times> ref"
    assume "within soup st'"
    then show "within soup (fst (case x of (sense_idx, sense) \<Rightarrow> longman_sense st' sense_idx p sense))"
      by (cases x) (simp add: within_longman_sense)
  qed
  then show ?thesis
    by (simp add: longman_entry_def Let_def split_beta)
qed

lemma within_entry_runs:
  assumes "(st, entry) \<in> set (entry_runs soup)"
  shows "within soup st"
  using within_longman_entry within_initial_state assms
  unfolding entry_runs_def
  by (rule states_of_preserves)

lemma within_sense_runs:
  assumes "within soup st" and "(st', x) \<in> set (sense_runs st entry)"
  shows "within soup st'"
proof -
  have "\<And>st'' y. within soup st'' \<Longrightarrow>
          within soup (fst (case y of (sense_idx, sense) \<Rightarrow>
             longman_sense st'' sense_idx (longman_entry_pos (node_at st entry)) sense))"
    by (simp add: split_beta within_longman_sense)
  from this assms(1) assms(2) [unfolded sense_runs_def]
  show ?thesis
    by (rule states_of_preserves)
qed

lemma refs_label:
  "(\<forall>t \<in> set (label p x # ldescendants (label p x)). is_tag t \<longrightarrow> (\<exists>q. ref_of t = p @ q)) \<and>
   distinct (map ref_of (filter is_tag (label p x # ldescendants (label p x))))"
  and refs_label_list:
  "(\<forall>t \<in> set (concat (map (\<lambda>c. c # ldescendants c) (label_list p k cs))).
      is_tag t \<longrightarrow> (\<exists>j q. k \<le> j \<and> ref_of t = p @ j # q)) \<and>
   distinct (map ref_of (filter is_tag (concat (map (\<lambda>c. c # ldescendants c) (label_list p k cs)))))"
proof (induction p x and p k cs rule: label_label_list.induct)
  case (1 p s)
  show ?case by simp
next
  case (2 p n cl at ch)
  let ?L = "concat (map (\<lambda>c. c # ldescendants c) (label_list p 0 ch))"
  from 2 have a: "\<forall>t \<in> set ?L. is_tag t \<longrightarrow> (\<exists>j q. ref_of t = p @ j # q)"
    and d: "distinct (map ref_of (filter is_tag ?L))"
    by auto
  have n: "label p (Tag n cl at ch) # ldescendants (label p (Tag n cl at ch)) =
           LTag p n cl at (label_list p 0 ch) # ?L"
    by simp
  have "p \<notin> ref_of ` set (filter is_tag ?L)"
    using a by auto
  with d have "distinct (map ref_of (filter is_tag (LTag p n cl at (label_list p 0 ch) # ?L)))"
    by simp
  moreover have "\<forall>t \<in> set (LTag p n cl at (label_list p 0 ch) # ?L).
                   is_tag t \<longrightarrow> (\<exists>q. ref_of t = p @ q)"
    using a by auto
  ultimately show ?case
    unfolding n by blast
next
  case (3 p k)
  show ?case by simp
next
  case (4 p k c cs)
  let ?A = "label (p @ [k]) c # ldescendants (label (p @ [k]) c)"
  let ?B = "concat (map (\<lambda>c. c # ldescendants c) (label_list p (Suc k) cs))"
  from 4 have a1: "\<forall>t \<in> set ?A. is_tag t \<longrightarrow> (\<exists>q. ref_of t = p @ k # q)"
    and d1: "distinct (map ref_of (filter is_tag ?A))"
    and a2: "\<forall>t \<in> set ?B. is_tag t \<longrightarrow> (\<exists>j q. Suc k \<le> j \<and> ref_of t = p @ j # q)"
    and d2: "distinct (map ref_of (filter is_tag ?B))"
    by auto
  have n: "concat (map (\<lambda>c. c # ldescendants c) (label_list p k (c # cs))) = ?A @ ?B"
    by simp
  have "ref_of ` set (filter is_tag ?A) \<inter> ref_of ` set (filter is_tag ?B) = {}"
  proof (rule ccontr)
    assume "ref_of ` set (filter is_tag ?A) \<inter> ref_of ` set (filter is_tag ?B) \<noteq> {}"
    then obtain x where "x \<in> ref_of ` set (filter is_tag ?A)"
      "x \<in> ref_of ` set (filter is_tag ?B)"
      by blast
    then obtain t1 t2 where "t1 \<in> set (filter is_tag ?A)" "t2 \<in> set (filter is_tag ?B)"
      "x = ref_of t1" "x = ref_of t2"
      by blast
    then have t: "t1 \<in> set ?A" "is_tag t1" "t2 \<in> set ?B" "is_tag t2"
      "ref_of t1 = ref_of t2"
      unfolding set_filter by simp_all
    from a1 t(1,2) obtain q1 where "ref_of t1 = p @ k # q1"
      by blast
    moreover from a2 t(3,4) obtain j q2 where "Suc k \<le> j" "ref_of t2 = p @ j # q2"
      by blast
    ultimately show False
      using t(5) by simp
  qed
  with d1 d2 have "distinct (map ref_of (filter is_tag (?A @ ?B)))"
    by (simp only: filter_append map_append distinct_append set_map simp_thms)
  moreover have "\<forall>t \<in> set (?A @ ?B). is_tag t \<longrightarrow> (\<exists>j q. k \<le> j \<and> ref_of t = p @ j # q)"
  proof (intro ballI impI)
    fix t
    assume "t \<in> set (?A @ ?B)" "is_tag t"
    then consider "t \<in> set ?A" | "t \<in> set ?B"
      by auto
    then show "\<exists>j q. k \<le> j \<and> ref_of t = p @ j # q"
    proof cases
      case 1
      with a1 \<open>is_tag t\<close> show ?thesis by blast
    next
      case 2
      with a2 \<open>is_tag t\<close> obtain j q where "Suc k \<le> j" "ref_of t = p @ j # q"
        by blast
      then show ?thesis
        by (intro exI [of _ j] exI [of _ q]) simp
    qed
  qed
  ultimately show ?case
    unfolding n by blast
qed

lemma find_Some_mem: "find P xs = Some x \<Longrightarrow> x \<in> set xs \<and> P x"
  by (induction xs) (auto split: if_splits)

lemma is_ref_iff: "is_ref r t \<longleftrightarrow> is_tag t \<and> ref_of t = r"
  by (cases t) auto

lemma lookup_initial_state:
  assumes "a \<in> set (label [] soup # ldescendants (label [] soup))" and "is_ref r a"
  shows "lookup (initial_state soup) r = a"
proof -
  let ?N = "label [] soup # ldescendants (label [] soup)"
  have n: "all_nodes (initial_state soup) = ?N"
    by (simp add: all_nodes_def initial_state_def)
  from assms have "\<exists>x. x \<in> set ?N \<and> is_ref r x"
    by blast
  then have "find (is_ref r) ?N \<noteq> None"
    by (simp only: find_None_iff not_not)
  then obtain b where b: "find (is_ref r) ?N = Some b"
    by blast
  from find_Some_mem [OF b] have b': "b \<in> set ?N" "is_ref r b"
    by blast+
  have "inj_on ref_of (set (filter is_tag ?N))"
    using refs_label [of "[]" soup] by (simp only: distinct_map)
  moreover from assms b' have "a \<in> set (filter is_tag ?N)" "b \<in> set (filter is_tag ?N)"
    "ref_of a = ref_of b"
    by (auto simp: is_ref_iff)
  ultimately have "a = b"
    unfolding inj_on_def by blast
  with b show ?thesis
    by (simp add: lookup_def n)
qed

lemma matches_shell: "matches sel (erase d) = matches sel (erase (shell d))"
proof (cases d)
  case (LString s)
  then show ?thesis by simp
next
  case (LTag r n cl at ch)
  have "matches_compound c (Tag n cl at (map erase ch)) = matches_compound c (Tag n cl at [])" for c
    by (cases c) simp
  with LTag show ?thesis
    by (simp add: matches_def)
qed

lemma matches_is_tag: "matches sel (erase d) \<Longrightarrow> is_tag d"
proof (cases d)
  case (LString s)
  assume "matches sel (erase d)"
  moreover have "\<not> matches_compound c (NavigableString s)" for c
    by (cases c) simp
  ultimately show ?thesis
    using LString by (simp add: matches_def list_ex_iff)
qed simp

lemma select_refs_shrink:
  assumes "within soup st" and "select_refs (initial_state soup) sel r = []"
  shows "select_refs st sel r = []"
proof (rule ccontr)
  assume "select_refs st sel r \<noteq> []"
  then obtain d where d: "d \<in> set (ldescendants (lookup st r))" "matches sel (erase d)"
    by (auto simp: select_refs_def refs_in_def filter_empty_conv)
  from d(2) have td: "is_tag d"
    by (rule matches_is_tag)
  from d(1) have "find (is_ref r) (all_nodes st) \<noteq> None"
    by (cases "find (is_ref r) (all_nodes st)") (auto simp: lookup_def)
  then obtain t where t: "find (is_ref r) (all_nodes st) = Some t"
    by blast
  from find_Some_mem [OF t] t have l: "lookup st r = t" and rt: "is_ref r t"
    by (simp_all add: lookup_def)
  have "t \<in> set (t # ldescendants t)"
    by simp
  from this d(1) [unfolded l] td have "(shell t, shell d) \<in> links t"
    by (rule links_I)
  moreover have "links t \<subseteq> links (label [] soup)"
    using links_lookup [OF assms(1), of r] by (simp only: l)
  ultimately have "(shell t, shell d) \<in> links (label [] soup)"
    by blast
  then obtain a0 d0 where 0: "shell a0 = shell t" "shell d0 = shell d"
    "a0 \<in> set (label [] soup # ldescendants (label [] soup))"
    "d0 \<in> set (ldescendants a0)"
    unfolding links_def by force
  from 0(1) rt have "is_ref r a0"
    by (cases a0; cases t) auto
  with 0(3) have "lookup (initial_state soup) r = a0"
    by (rule lookup_initial_state)
  moreover have "matches sel (erase d0)"
    using d(2) 0(2) matches_shell [of sel d] matches_shell [of sel d0] by simp
  ultimately have "select_refs (initial_state soup) sel r \<noteq> []"
    using 0(4) by (auto simp: select_refs_def refs_in_def filter_empty_conv)
  with assms(2) show False
    by simp
qed

lemma select_one_ref_None: "select_one_ref st sel r = None \<longleftrightarrow> select_refs st sel r = []"
  by (simp add: select_one_ref_def split: list.splits)

lemma select_one_ref_shrink:
  assumes "within soup st" and "select_one_ref (initial_state soup) sel r = None"
  shows "select_one_ref st sel r = None"
  using assms by (simp only: select_one_ref_None select_refs_shrink)

lemma select_refs_initial_state:
  "select_refs (initial_state soup) sel [] = refs_in sel (label [] soup)"
  by (cases soup) (simp_all add: select_refs_def lookup_def all_nodes_def initial_state_def refs_in_def)

lemma sense_without_definition_as_parsed:
  assumes "(st, entry) \<in> set (entry_runs soup)"
    and "(st', sense_idx, sense) \<in> set (sense_runs st entry)"
    and "select_one_ref (initial_state soup) (css ''.DEF'') sense = None"
  shows "select_one_ref st' (css ''.DEF'') sense = None"
proof -
  from assms(1) have "within soup st"
    by (rule within_entry_runs)
  from this assms(2) have "within soup st'"
    by (rule within_sense_runs)
  from this assms(3) show ?thesis
    by (rule select_one_ref_shrink)
qed

subsection \<open>Senses without a definition\<close>

text \<open>
  C6. On a fetched Longman page that yields a normalized entry, the definitions are
  those of the sense blocks in which the extractor, when it reaches them, finds a
  \<open>.DEF\<close> node, in order and with the numbers they have among all the senses of their
  entry. A sense block that has no \<open>.DEF\<close> node in the page as parsed has none when the
  extractor reaches it, whatever was edited before, and gives no unit. In general a
  sense in which the extractor finds no \<open>.DEF\<close> node gives no unit, whatever else the
  sense holds (a related word, a thesaurus reference), and a sense in which it finds one
  gives exactly one unit.
\<close>

theorem longman_sense_without_definition:
  assumes "fetch_page (page_url LongmanDictionaryScraper w) = Some soup"
    and "get_definition fetch_page LongmanDictionaryScraper w = NormalizedEntry r"
  shows "definitions r =
           concat (map (\<lambda>(st, entry).
                     concat (map (\<lambda>(st', sense_idx, sense).
                                    snd (longman_sense st' sense_idx
                                           (longman_entry_pos (node_at st entry)) sense))
                               (filter (\<lambda>(st', sense_idx, sense).
                                          select_one_ref st' (css ''.DEF'') sense \<noteq> None)
                                  (sense_runs st entry))))
                  (entry_runs soup)) \<and>
         (\<forall>(st, entry) \<in> set (entry_runs soup).
            \<forall>(st', sense_idx, sense) \<in> set (sense_runs st entry).
              select_one_ref (initial_state soup) (css ''.DEF'') sense = None \<longrightarrow>
              select_one_ref st' (css ''.DEF'') sense = None \<and>
              snd (longman_sense st' sense_idx (longman_entry_pos (node_at st entry)) sense) = []) \<and>
         (\<forall>st i p sense. select_one_ref st (css ''.DEF'') sense = None \<longrightarrow>
                         snd (longman_sense st i p sense) = []) \<and>
         (\<forall>st i p sense. select_one_ref st (css ''.DEF'') sense \<noteq> None \<longrightarrow>
                         length (snd (longman_sense st i p sense)) = 1)"
proof (intro conjI)
  have "longman_extract soup w (page_url LongmanDictionaryScraper w) = Inr r"
    using assms(2) assms(1) by (rule longman_get_definition_Inr)
  then have "definitions r =
      concat (map (\<lambda>(st, entry). snd (snd (longman_entry st entry))) (entry_runs soup))"
    by (rule longman_extract_definitions)
  then show "definitions r =
           concat (map (\<lambda>(st, entry).
                     concat (map (\<lambda>(st', sense_idx, sense).
                                    snd (longman_sense st' sense_idx
                                           (longman_entry_pos (node_at st entry)) sense))
                               (filter (\<lambda>(st', sense_idx, sense).
                                          select_one_ref st' (css ''.DEF'') sense \<noteq> None)
                                  (sense_runs st entry))))
                  (entry_runs soup))"
    by (simp only: longman_entry_units)
next
  have "select_one_ref st' (css ''.DEF'') sense = None \<and>
        snd (longman_sense st' sense_idx (longman_entry_pos (node_at st entry)) sense) = []"
    if "(st, entry) \<in> set (entry_runs soup)"
      and "(st', sense_idx, sense) \<in> set (sense_runs st entry)"
      and "select_one_ref (initial_state soup) (css ''.DEF'') sense = None"
    for st entry st' sense_idx sense
  proof -
    from that have n: "select_one_ref st' (css ''.DEF'') sense = None"
      by (rule sense_without_definition_as_parsed)
    then have "snd (longman_sense st' sense_idx (longman_entry_pos (node_at st entry)) sense) = []"
      by (rule longman_sense_without_def)
    with n show ?thesis
      by (rule conjI)
  qed
  then show "\<forall>(st, entry) \<in> set (entry_runs soup).
            \<forall>(st', sense_idx, sense) \<in> set (sense_runs st entry).
              select_one_ref (initial_state soup) (css ''.DEF'') sense = None \<longrightarrow>
              select_one_ref st' (css ''.DEF'') sense = None \<and>
              snd (longman_sense st' sense_idx (longman_entry_pos (node_at st entry)) sense) = []"
    by blast
next
  show "\<forall>st i p sense. select_one_ref st (css ''.DEF'') sense = None \<longrightarrow>
                         snd (longman_sense st i p sense) = []"
    by (intro allI impI) (rule longman_sense_without_def)
next
  show "\<forall>st i p sense. select_one_ref st (css ''.DEF'') sense \<noteq> None \<longrightarrow>
                         length (snd (longman_sense st i p sense)) = 1"
    by (intro allI impI) (auto simp: longman_sense_with_def)
qed

theorem longman_sense_without_definition_witness:
  "entry_runs cross_reference_page = [(initial_state cross_reference_page, [0])] \<and>
   map (\<lambda>(st, sense_idx, sense). (sense_idx, sense)) 
     (sense_runs (initial_state cross_reference_page) [0]) = [(1, [0, 1]), (2, [0, 2])] \<and>
   select_one_ref (initial_state cross_reference_page) (css ''.DEF'') [0, 1] = None \<and>
   select_one_ref (initial_state cross_reference_page) (css ''.DEF'') [0, 2] = Some [0, 2, 0] \<and>
   get_definition (\<lambda>u. Some cross_reference_page) LongmanDictionaryScraper (S ''join'') =
     NormalizedEntry
       ((result_obj (S ''Longman Dictionary'') (S ''join'')
           (S ''https://www.ldoceonline.com/dictionary/join'')
           [(definition_obj (S ''to join'') [S ''Mix it.''] (S ''verb''))
              \<lparr>sense_number := Some (SenseInt 2)\<rparr>])
          \<lparr>headword_pos := Some (S ''verb'')\<rparr>) \<and>
   snd (longman_sense (initial_state cross_reference_page) 1
          (longman_entry_pos (node_at (initial_state cross_reference_page) [0])) [0, 1]) = []"
proof -
  let ?st = "initial_state cross_reference_page"
  have e: "entry_runs cross_reference_page = [(?st, [0])]"
    by code_simp
  have s: "sense_runs ?st [0] = [(?st, 1, [0, 1]), (?st, 2, [0, 2])]"
    by code_simp
  have s': "map (\<lambda>(st, sense_idx, sense). (sense_idx, sense)) (sense_runs ?st [0]) =
            [(1, [0, 1]), (2, [0, 2])]"
    by (simp only: s list.map prod.case)
  have b: "get_definition (\<lambda>u. Some cross_reference_page) LongmanDictionaryScraper (S ''join'') =
     NormalizedEntry
       ((result_obj (S ''Longman Dictionary'') (S ''join'')
           (S ''https://www.ldoceonline.com/dictionary/join'')
           [(definition_obj (S ''to join'') [S ''Mix it.''] (S ''verb''))
              \<lparr>sense_number := Some (SenseInt 2)\<rparr>])
          \<lparr>headword_pos := Some (S ''verb'')\<rparr>)"
    by code_simp
  have c: "select_one_ref ?st (css ''.DEF'') [0, 1] = None"
    by code_simp
  have c': "select_one_ref ?st (css ''.DEF'') [0, 2] = Some [0, 2, 0]"
    by code_simp
  have f: "(\<lambda>u. Some cross_reference_page) (page_url LongmanDictionaryScraper (S ''join'')) =
           Some cross_reference_page"
    by simp
  have m1: "(?st, [0]) \<in> set (entry_runs cross_reference_page)"
    by (simp only: e list.set insertI1)
  have m2: "(?st, 1, [0, 1]) \<in> set (sense_runs ?st [0])"
    by (simp only: s list.set insertI1)
  note th = longman_sense_without_definition [OF f b, THEN conjunct2, THEN conjunct1]
  from th [THEN bspec, OF m1]
  have "\<forall>(st', sense_idx, sense) \<in> set (sense_runs ?st [0]).
      select_one_ref ?st (css ''.DEF'') sense = None \<longrightarrow>
      select_one_ref st' (css ''.DEF'') sense = None \<and>
      snd (longman_sense st' sense_idx (longman_entry_pos (node_at ?st [0])) sense) = []"
    by (simp only: prod.case)
  from this [THEN bspec, OF m2]
  have "select_one_ref ?st (css ''.DEF'') [0, 1] = None \<longrightarrow>
      select_one_ref ?st (css ''.DEF'') [0, 1] = None \<and>
      snd (longman_sense ?st 1 (longman_entry_pos (node_at ?st [0])) [0, 1]) = []"
    by (simp only: prod.case)
  with c have "snd (longman_sense ?st 1 (longman_entry_pos (node_at ?st [0])) [0, 1]) = []"
    by blast
  with e s' c c' b show ?thesis
    by (intro conjI)
qed

text \<open>
  The edits in place: a sense inside a destroyed speaker icon gives no unit; a related
  word inside a replaced reference link is not found; a sense inside a replaced
  reference link has lost its text; a corpus example inside a destroyed bullet has the
  empty text.
\<close>

lemma sense_in_speaker:
  "(case longman_extract sense_in_speaker_page [] [] of
      Inr r \<Rightarrow> definitions r | Inl x \<Rightarrow> []) =
   [(definition_obj (S ''a'') [S ''ex''] [])\<lparr>sense_number := Some (SenseInt 1)\<rparr>]"
  by code_simp

lemma related_in_reference:
  "(case longman_extract related_in_reference_page [] [] of
      Inr r \<Rightarrow> definitions r | Inl x \<Rightarrow> []) =
   [(definition_obj (S ''to join'') [] [])\<lparr>sense_number := Some (SenseInt 1)\<rparr>]"
  by code_simp

lemma sense_in_reference:
  "(case longman_extract sense_in_reference_page [] [] of
      Inr r \<Rightarrow> definitions r | Inl x \<Rightarrow> []) =
   [(definition_obj (S ''see b'') [] [])\<lparr>sense_number := Some (SenseInt 1)\<rparr>,
    (definition_obj [] [] [])\<lparr>sense_number := Some (SenseInt 2)\<rparr>]"
  by code_simp

lemma nested_corpus:
  "(case longman_extract nested_corpus_page [] [] of
      Inr r \<Rightarrow> corpus_examples r | Inl x \<Rightarrow> None) =
   Some [\<lparr>title = S ''Corpus'', group_examples = [S ''outer [word]'', []]\<rparr>]"
  by code_simp

section \<open>Error entries\<close>

lemma exception_entry_keys:
  "\<exists>e. exception_entry n x = ErrorEntry e \<and> error_source e = n \<and> error e = exc_message x \<and>
       trace e = Some (exc_type x @ S '' at line '' @ str_nat (tb_lineno x)) \<and>
       error_keys e = [''source'', ''error'', ''trace'']"
  by (simp add: exception_entry_def error_keys_def)

lemma unbound_headword_info_trace:
  "exc_type unbound_headword_info @ S '' at line '' @ str_nat (tb_lineno unbound_headword_info) =
   S ''UnboundLocalError at line 561''"
  by code_simp

lemma longman_extract_raises:
  "longman_extract soup w u = Inl x \<Longrightarrow>
   select (css ''.dictentry'') soup = [] \<and> x = unbound_headword_info"
  by (auto simp: longman_extract_def Let_def refs_in_empty initial_state_def
      split: if_splits prod.splits)

lemma mw_never_error:
  "fetch_page (page_url MerriamWebsterScraper w) = Some soup \<Longrightarrow>
   get_definition fetch_page MerriamWebsterScraper w \<noteq> ErrorEntry e"
  by (simp add: mw_get_definition_def Let_def)

lemma cambridge_never_error:
  "fetch_page (page_url (CambridgeDictionaryScraper language) w) = Some soup \<Longrightarrow>
   get_definition fetch_page (CambridgeDictionaryScraper language) w \<noteq> ErrorEntry e"
  by (simp add: cambridge_get_definition_def Let_def)

lemma longman_error_fetched:
  assumes "fetch_page (page_url LongmanDictionaryScraper w) = Some soup"
    and "get_definition fetch_page LongmanDictionaryScraper w = ErrorEntry e"
  shows "select (css ''.dictentry'') soup = [] \<and>
         ErrorEntry e = exception_entry (name LongmanDictionaryScraper) unbound_headword_info"
  using assms
  by (auto simp: longman_get_definition_def Let_def dest: longman_extract_raises
      split: sum.splits)

lemma run_async_unknown:
  assumes "py_lower d \<notin> set [S ''merriam'', S ''merriam-webster'', S ''m'', S ''mw'',
                               S ''longman'', S ''l'', S ''cambridge'', S ''c'']"
  shows "run_async fetch_page now w (Some d) language False =
           Error (S ''Dictionary '' @ d @ S '' not found'')"
  using assms by (simp add: run_async_def Let_def)

lemma run_async_unknown_no_entry:
  assumes "py_lower d \<notin> set [S ''merriam'', S ''merriam-webster'', S ''m'', S ''mw'',
                               S ''longman'', S ''l'', S ''cambridge'', S ''c'']"
  shows "run_async fetch_page now w (Some d) language False \<noteq> Finished r"
  using run_async_unknown [OF assms, of fetch_page now w language] by simp

text \<open>
  C10, as the code has it. An error entry of an extractor is of one of two kinds. If
  the page was not fetched, it has the keys \<open>source\<close> and \<open>error\<close> only. Otherwise it
  was made by the exception handler, and it has the key \<open>trace\<close> as well, which holds
  the name of the exception's type and the line: the handler builds such an entry from
  every exception. Here the only exception is the \<open>UnboundLocalError\<close> of the Longman
  extractor on a page with no entry. A selection failure makes no error entry at all:
  for an identifier that matches no alias, \<open>run_async\<close> emits a bare message on its
  error signal and returns; its \<open>finished\<close> signal carries nothing.
\<close>

theorem error_entry_trace:
  assumes "get_definition fetch_page s w = ErrorEntry e"
  shows "((fetch_page (page_url s w) = None \<and> error_source e = name s \<and>
           error e = S ''Failed to fetch page'' \<and> trace e = None \<and>
           error_keys e = [''source'', ''error'']) \<or>
          (\<exists>soup. fetch_page (page_url s w) = Some soup \<and> s = LongmanDictionaryScraper \<and>
             select (css ''.dictentry'') soup = [] \<and>
             ErrorEntry e = exception_entry (name s) unbound_headword_info \<and>
             trace e = Some (S ''UnboundLocalError at line 561'') \<and>
             error_keys e = [''source'', ''error'', ''trace''])) \<and>
         (\<forall>n x. \<exists>e'. exception_entry n x = ErrorEntry e' \<and> error_source e' = n \<and>
                   error e' = exc_message x \<and>
                   trace e' = Some (exc_type x @ S '' at line '' @ str_nat (tb_lineno x)) \<and>
                   error_keys e' = [''source'', ''error'', ''trace'']) \<and>
         (\<forall>d now language.
            py_lower d \<notin> set [S ''merriam'', S ''merriam-webster'', S ''m'', S ''mw'',
                              S ''longman'', S ''l'', S ''cambridge'', S ''c''] \<longrightarrow>
            run_async fetch_page now w (Some d) language False =
              Error (S ''Dictionary '' @ d @ S '' not found'')) \<and>
         (\<forall>d now language r.
            py_lower d \<notin> set [S ''merriam'', S ''merriam-webster'', S ''m'', S ''mw'',
                              S ''longman'', S ''l'', S ''cambridge'', S ''c''] \<longrightarrow>
            run_async fetch_page now w (Some d) language False \<noteq> Finished r)"
proof (intro conjI allI impI)
  show "(fetch_page (page_url s w) = None \<and> error_source e = name s \<and>
           error e = S ''Failed to fetch page'' \<and> trace e = None \<and>
           error_keys e = [''source'', ''error'']) \<or>
          (\<exists>soup. fetch_page (page_url s w) = Some soup \<and> s = LongmanDictionaryScraper \<and>
             select (css ''.dictentry'') soup = [] \<and>
             ErrorEntry e = exception_entry (name s) unbound_headword_info \<and>
             trace e = Some (S ''UnboundLocalError at line 561'') \<and>
             error_keys e = [''source'', ''error'', ''trace''])"
  proof (cases "fetch_page (page_url s w)")
    case None
    from get_definition_fetch_None [of fetch_page s w, OF None] assms
    have "e = \<lparr>error_source = name s, error = S ''Failed to fetch page'', trace = None\<rparr>"
      by (simp add: fetch_failure_def)
    with None show ?thesis
      by (simp add: error_keys_def)
  next
    case (Some soup)
    have s: "s = LongmanDictionaryScraper"
    proof (cases s)
      case MerriamWebsterScraper
      with Some assms mw_never_error [of fetch_page w soup e] show ?thesis
        by simp
    next
      case (CambridgeDictionaryScraper language)
      with Some assms cambridge_never_error [of fetch_page language w soup e] show ?thesis
        by simp
    next
      case LongmanDictionaryScraper
      then show ?thesis .
    qed
    from Some assms have l: "select (css ''.dictentry'') soup = [] \<and>
         ErrorEntry e = exception_entry (name LongmanDictionaryScraper) unbound_headword_info"
      unfolding s by (rule longman_error_fetched)
    from exception_entry_keys [of "name LongmanDictionaryScraper" unbound_headword_info]
    obtain e' where e': "exception_entry (name LongmanDictionaryScraper) unbound_headword_info =
          ErrorEntry e'"
      "trace e' = Some (exc_type unbound_headword_info @ S '' at line '' @
                        str_nat (tb_lineno unbound_headword_info))"
      "error_keys e' = [''source'', ''error'', ''trace'']"
      by blast
    with l have "e = e'"
      by simp
    with e' have "trace e = Some (S ''UnboundLocalError at line 561'')"
      "error_keys e = [''source'', ''error'', ''trace'']"
      by (simp_all only: unbound_headword_info_trace)
    with Some s l show ?thesis
      by blast
  qed
next
  fix n x
  show "\<exists>e'. exception_entry n x = ErrorEntry e' \<and> error_source e' = n \<and>
                   error e' = exc_message x \<and>
                   trace e' = Some (exc_type x @ S '' at line '' @ str_nat (tb_lineno x)) \<and>
                   error_keys e' = [''source'', ''error'', ''trace'']"
    by (rule exception_entry_keys)
next
  fix d now language
  assume "py_lower d \<notin> set [S ''merriam'', S ''merriam-webster'', S ''m'', S ''mw'',
                              S ''longman'', S ''l'', S ''cambridge'', S ''c'']"
  then show "run_async fetch_page now w (Some d) language False =
              Error (S ''Dictionary '' @ d @ S '' not found'')"
    by (rule run_async_unknown)
next
  fix d now language r
  assume "py_lower d \<notin> set [S ''merriam'', S ''merriam-webster'', S ''m'', S ''mw'',
                              S ''longman'', S ''l'', S ''cambridge'', S ''c'']"
  then show "run_async fetch_page now w (Some d) language False \<noteq> Finished r"
    by (rule run_async_unknown_no_entry)
qed

theorem error_entry_trace_witness:
  "get_definition (\<lambda>u. Some bare_page) LongmanDictionaryScraper (S ''combine'') =
     ErrorEntry
       \<lparr>error_source = S ''Longman Dictionary'',
        error = S ''cannot access local variable '' @ [39] @ S ''headword_info'' @ [39] @
                S '' where it is not associated with a value'',
        trace = Some (S ''UnboundLocalError at line 561'')\<rparr> \<and>
   (\<lambda>u. Some bare_page) (page_url LongmanDictionaryScraper (S ''combine'')) \<noteq> None \<and>
   error_keys
     \<lparr>error_source = S ''Longman Dictionary'',
      error = S ''cannot access local variable '' @ [39] @ S ''headword_info'' @ [39] @
              S '' where it is not associated with a value'',
      trace = Some (S ''UnboundLocalError at line 561'')\<rparr> = [''source'', ''error'', ''trace'']"
proof -
  let ?e = "\<lparr>error_source = S ''Longman Dictionary'',
        error = S ''cannot access local variable '' @ [39] @ S ''headword_info'' @ [39] @
                S '' where it is not associated with a value'',
        trace = Some (S ''UnboundLocalError at line 561'')\<rparr>"
  have g: "get_definition (\<lambda>u. Some bare_page) LongmanDictionaryScraper (S ''combine'') =
            ErrorEntry ?e"
    by code_simp
  have f: "(\<lambda>u. Some bare_page) (page_url LongmanDictionaryScraper (S ''combine'')) \<noteq> None"
    by simp
  from error_entry_trace [OF g, THEN conjunct1] f
  have "error_keys ?e = [''source'', ''error'', ''trace'']"
    by blast
  with g f show ?thesis
    by (intro conjI)
qed

text \<open>
  C10 as stated fails for the selection failure: it is not an error entry with the
  fields \<open>source\<close> and \<open>error\<close>, but a message on the error signal.
\<close>

theorem selection_failure_counterexample:
  "run_async (\<lambda>u. None) [] (S ''mix'') (Some (S ''xx'')) None False =
     Error (S ''Dictionary xx not found'') \<and>
   (\<nexists>e. run_async (\<lambda>u. None) [] (S ''mix'') (Some (S ''xx'')) None False =
          Finished (Single (ErrorEntry e)) \<and> error_keys e = [''source'', ''error''])"
proof -
  have "run_async (\<lambda>u. None) [] (S ''mix'') (Some (S ''xx'')) None False =
     Error (S ''Dictionary xx not found'')"
    by code_simp
  then show ?thesis
    by simp
qed

section \<open>Properties of the source selection\<close>

lemma find_initialize:
  "find (\<lambda>s. s = MerriamWebsterScraper) initialize = Some MerriamWebsterScraper"
  "find (\<lambda>s. s = LongmanDictionaryScraper) initialize = Some LongmanDictionaryScraper"
  by (simp_all add: initialize_def)

lemma aliases_disjoint:
  "S ''longman'' \<notin> set [S ''merriam'', S ''merriam-webster'', S ''m'', S ''mw'']"
  "S ''l'' \<notin> set [S ''merriam'', S ''merriam-webster'', S ''m'', S ''mw'']"
  "S ''cambridge'' \<notin> set [S ''merriam'', S ''merriam-webster'', S ''m'', S ''mw'',
                             S ''longman'', S ''l'']"
  "S ''c'' \<notin> set [S ''merriam'', S ''merriam-webster'', S ''m'', S ''mw'',
                     S ''longman'', S ''l'']"
  by code_simp+

lemma run_async_merriam:
  assumes "py_lower d \<in> set [S ''merriam'', S ''merriam-webster'', S ''m'', S ''mw'']"
  shows "run_async fetch_page now w (Some d) language False =
           Finished (Single (get_definition fetch_page MerriamWebsterScraper w))"
  using assms by (simp add: run_async_def Let_def find_initialize del: get_definition.simps)

lemma run_async_longman:
  assumes "py_lower d \<in> set [S ''longman'', S ''l'']"
  shows "run_async fetch_page now w (Some d) language False =
           Finished (Single (get_definition fetch_page LongmanDictionaryScraper w))"
proof -
  from assms aliases_disjoint(1,2)
  have "py_lower d \<notin> set [S ''merriam'', S ''merriam-webster'', S ''m'', S ''mw'']"
    by auto
  with assms show ?thesis
    by (simp add: run_async_def Let_def find_initialize del: get_definition.simps)
qed

lemma run_async_cambridge:
  assumes "py_lower d \<in> set [S ''cambridge'', S ''c'']"
  shows "run_async fetch_page now w (Some d) language False =
           Finished (Single (get_definition fetch_page
                      (CambridgeDictionaryScraper (language_or_chinese language)) w))"
proof -
  from assms aliases_disjoint(3,4)
  have "py_lower d \<notin> set [S ''merriam'', S ''merriam-webster'', S ''m'', S ''mw'',
                            S ''longman'', S ''l'']"
    by auto
  with assms show ?thesis
    by (simp add: run_async_def Let_def del: get_definition.simps)
qed

text \<open>
  C8, as the code has it. The selection of one source lowers the identifier and looks
  it up among the aliases: one of \<open>merriam\<close>, \<open>merriam-webster\<close>, \<open>m\<close>, \<open>mw\<close> in any
  case gives the entry of the Merriam-Webster extractor, a Longman or Cambridge alias
  the entry of that extractor. For an identifier that lowers to no alias nothing is
  raised and no entry is returned: \<open>run_async\<close> emits the bare message
  \<open>Dictionary <identifier> not found\<close> on its error signal.
\<close>

theorem run_async_selection:
  "(py_lower d \<in> set [S ''merriam'', S ''merriam-webster'', S ''m'', S ''mw''] \<longrightarrow>
      run_async fetch_page now w (Some d) language False =
        Finished (Single (get_definition fetch_page MerriamWebsterScraper w))) \<and>
   (py_lower d \<in> set [S ''longman'', S ''l''] \<longrightarrow>
      run_async fetch_page now w (Some d) language False =
        Finished (Single (get_definition fetch_page LongmanDictionaryScraper w))) \<and>
   (py_lower d \<in> set [S ''cambridge'', S ''c''] \<longrightarrow>
      run_async fetch_page now w (Some d) language False =
        Finished (Single (get_definition fetch_page
                   (CambridgeDictionaryScraper (language_or_chinese language)) w))) \<and>
   (py_lower d \<notin> set [S ''merriam'', S ''merriam-webster'', S ''m'', S ''mw'',
                       S ''longman'', S ''l'', S ''cambridge'', S ''c''] \<longrightarrow>
      run_async fetch_page now w (Some d) language False =
        Error (S ''Dictionary '' @ d @ S '' not found'') \<and>
      (\<forall>r. run_async fetch_page now w (Some d) language False \<noteq> Finished r))"
proof (intro conjI impI allI)
  assume "py_lower d \<in> set [S ''merriam'', S ''merriam-webster'', S ''m'', S ''mw'']"
  then show "run_async fetch_page now w (Some d) language False =
        Finished (Single (get_definition fetch_page MerriamWebsterScraper w))"
    by (rule run_async_merriam)
next
  assume "py_lower d \<in> set [S ''longman'', S ''l'']"
  then show "run_async fetch_page now w (Some d) language False =
        Finished (Single (get_definition fetch_page LongmanDictionaryScraper w))"
    by (rule run_async_longman)
next
  assume "py_lower d \<in> set [S ''cambridge'', S ''c'']"
  then show "run_async fetch_page now w (Some d) language False =
        Finished (Single (get_definition fetch_page
                            (CambridgeDictionaryScraper (language_or_chinese language)) w))"
    by (rule run_async_cambridge)
next
  assume "py_lower d \<notin> set [S ''merriam'', S ''merriam-webster'', S ''m'', S ''mw'',
                       S ''longman'', S ''l'', S ''cambridge'', S ''c'']"
  then show "run_async fetch_page now w (Some d) language False =
        Error (S ''Dictionary '' @ d @ S '' not found'')"
    by (rule run_async_unknown)
next
  fix r
  assume "py_lower d \<notin> set [S ''merriam'', S ''merriam-webster'', S ''m'', S ''mw'',
                       S ''longman'', S ''l'', S ''cambridge'', S ''c'']"
  then show "run_async fetch_page now w (Some d) language False \<noteq> Finished r"
    by (rule run_async_unknown_no_entry)
qed

theorem run_async_selection_witness:
  "py_lower (S ''MW'') \<in> set [S ''merriam'', S ''merriam-webster'', S ''m'', S ''mw''] \<and>
   run_async only_longman_fails [] (S ''combine'') (Some (S ''MW'')) None False =
     Finished (Single (get_definition only_longman_fails MerriamWebsterScraper (S ''combine''))) \<and>
   py_lower (S ''zz'') \<notin> set [S ''merriam'', S ''merriam-webster'', S ''m'', S ''mw'',
                                S ''longman'', S ''l'', S ''cambridge'', S ''c''] \<and>
   run_async only_longman_fails [] (S ''combine'') (Some (S ''zz'')) None False =
     Error (S ''Dictionary zz not found'')"
proof -
  have a: "py_lower (S ''MW'') \<in> set [S ''merriam'', S ''merriam-webster'', S ''m'', S ''mw'']"
    by code_simp
  have b: "py_lower (S ''zz'') \<notin> set [S ''merriam'', S ''merriam-webster'', S ''m'', S ''mw'',
                                S ''longman'', S ''l'', S ''cambridge'', S ''c'']"
    by code_simp
  have c: "S ''Dictionary '' @ S ''zz'' @ S '' not found'' = S ''Dictionary zz not found''"
    by (simp add: S_def)
  note th = run_async_selection [of "S ''MW''" only_longman_fails "[]" "S ''combine''" None]
  note th' = run_async_selection [of "S ''zz''" only_longman_fails "[]" "S ''combine''" None]
  from th [THEN conjunct1, rule_format, OF a]
    th' [THEN conjunct2, THEN conjunct2, THEN conjunct2, rule_format, OF b, THEN conjunct1] a b
  show ?thesis
    by (simp only: c simp_thms)
qed

text \<open>
  C8 as stated fails for the identifier \<open>zz\<close>: the response is not an entry with an
  \<open>error\<close> field, but a message on the error signal.
\<close>

theorem run_async_not_found_counterexample:
  "run_async only_longman_fails [] (S ''combine'') (Some (S ''zz'')) None False =
     Error (S ''Dictionary zz not found'') \<and>
   (\<nexists>e. run_async only_longman_fails [] (S ''combine'') (Some (S ''zz'')) None False =
          Finished (Single (ErrorEntry e)))"
proof -
  have "run_async only_longman_fails [] (S ''combine'') (Some (S ''zz'')) None False =
     Error (S ''Dictionary zz not found'')"
    by code_simp
  then show ?thesis
    by simp
qed

section \<open>Definition text\<close>

lemma mw_subsense_text:
  "u \<in> set (mw_subsense word_type sense_num subsense) \<Longrightarrow>
   \<exists>d. definition_str u = Some d \<and> d \<noteq> []"
  by (auto simp: mw_subsense_def Let_def definition_obj_def split: if_splits)

lemma mw_primary_text:
  "u \<in> set (mw_primary soup) \<Longrightarrow> \<exists>d. definition_str u = Some d \<and> d \<noteq> []"
  by (auto simp: mw_primary_def mw_pos_block_def mw_sense_item_def Let_def
      dest: mw_subsense_text split: if_splits option.splits)

lemma legacy_text:
  "u \<in> set (definitions (legacy_get_definition soup w url0)) \<Longrightarrow>
   \<exists>d. definition_str u = Some d \<and> d \<noteq> []"
  by (auto simp: legacy_get_definition_def result_obj_def legacy_section_def Let_def
      definition_obj_def split: if_splits)

lemma mw_units_have_text:
  assumes "get_definition fetch_page MerriamWebsterScraper w = NormalizedEntry r"
    and "u \<in> set (definitions r)"
  shows "\<exists>d. definition_str u = Some d \<and> d \<noteq> []"
  using assms
  by (auto simp: mw_get_definition_def mw_extract_def Let_def fetch_failure_def result_obj_def
      dest: mw_primary_text legacy_text split: option.splits if_splits)

text \<open>
  C1 does not hold for the Cambridge and Longman extractors: both test that the
  definition node exists, not that its cleaned text is non-empty, as the Merriam-Webster
  extractor does. On a page whose definition node holds only white space (Cambridge) or
  nothing (Longman), each returns one unit whose definition is the empty string.
\<close>

theorem blank_definition_emitted:
  "get_definition (\<lambda>u. Some blank_cambridge_page) (CambridgeDictionaryScraper (S ''english''))
     (S ''join'') =
     NormalizedEntry
       (result_obj (S ''Cambridge Dictionary'') (S ''join'')
          (S ''https://dictionary.cambridge.org/dictionary/english/join'')
          [definition_obj [] [] []]) \<and>
   get_definition (\<lambda>u. Some blank_longman_page) LongmanDictionaryScraper (S ''join'') =
     NormalizedEntry
       (result_obj (S ''Longman Dictionary'') (S ''join'')
          (S ''https://www.ldoceonline.com/dictionary/join'')
          [(definition_obj [] [] [])\<lparr>sense_number := Some (SenseInt 1)\<rparr>]) \<and>
   definition_str (definition_obj [] [] []) = Some [] \<and>
   definition_str ((definition_obj [] [] [])\<lparr>sense_number := Some (SenseInt 1)\<rparr>) = Some []"
proof -
  have a: "get_definition (\<lambda>u. Some blank_cambridge_page)
       (CambridgeDictionaryScraper (S ''english'')) (S ''join'') =
     NormalizedEntry
       (result_obj (S ''Cambridge Dictionary'') (S ''join'')
          (S ''https://dictionary.cambridge.org/dictionary/english/join'')
          [definition_obj [] [] []])"
    by code_simp
  have b: "get_definition (\<lambda>u. Some blank_longman_page) LongmanDictionaryScraper (S ''join'') =
     NormalizedEntry
       (result_obj (S ''Longman Dictionary'') (S ''join'')
          (S ''https://www.ldoceonline.com/dictionary/join'')
          [(definition_obj [] [] [])\<lparr>sense_number := Some (SenseInt 1)\<rparr>])"
    by code_simp
  have c: "definition_str (definition_obj [] [] []) = Some []"
    "definition_str ((definition_obj [] [] [])\<lparr>sense_number := Some (SenseInt 1)\<rparr>) = Some []"
    by (simp_all add: definition_obj_def)
  from a b c show ?thesis
    by (intro conjI)
qed

end
